theory Spec2Isabelle
  imports Main "HOL-Library.AList"
begin

section \<open>JavaScript values and the object store\<close>

text \<open>
  The raw API response is untyped data: \<open>null\<close>, \<open>undefined\<close>, a primitive, an array or a
  plain object, nested to any depth. Objects and arrays are reference values, and
  \<open>validateAndNormalize\<close> stores references to them in its result and appends to an array
  through such a reference, so objects live in an explicit store and a value that denotes
  an object is an address into it.

  Scope of the value model:
  \<^item> numbers are the integers (\<open>NaN\<close>, infinities and fractions are left out; the code only
    tests numbers for truthiness and passes them on);
  \<^item> strings are byte strings, a non-ASCII literal of the source being its UTF-8 encoding;
  \<^item> a stored object is a plain object (prototype \<open>Object.prototype\<close>) or a dense array
    without extra properties (prototype \<open>Array.prototype\<close>); its properties are data
    properties holding data values;
  \<^item> the members of the two built-in prototypes are reachable by property reads, so a value
    at run time is a data value, a built-in function, or a built-in prototype object;
  \<^item> reading a property of a string, number, boolean or function goes through a wrapper
    object of the engine; the model marks such a read \<open>Unmodelled\<close> instead of guessing.
\<close>

type_synonym addr = nat

datatype jsval = JUndefined | JNull | JBool bool | JNum int | JStr string | JRef addr

datatype jsobj = ObjPlain "(string \<times> jsval) list" | ObjArray "jsval list"

type_synonym heap = "jsobj list"

datatype proto = ObjectPrototype | ArrayPrototype

datatype rtval = V jsval | BuiltinFun string | BuiltinProto proto

datatype js_error = TypeError

datatype 'a outcome = Returns 'a | Throws js_error | Unmodelled

text \<open>
  The store is the list of the objects allocated so far; an address is a position in it,
  and a new object is appended. An address that was never allocated reads as an object
  without properties.
\<close>

definition obj_at :: "heap \<Rightarrow> addr \<Rightarrow> jsobj" where
  "obj_at h a = (if a < length h then h ! a else ObjPlain [])"

text \<open>\<open>!x\<close> negates truthiness; \<open>typeof x\<close>.\<close>

fun truthy :: "rtval \<Rightarrow> bool" where
  "truthy (V JUndefined) = False"
| "truthy (V JNull) = False"
| "truthy (V (JBool b)) = b"
| "truthy (V (JNum n)) = (n \<noteq> 0)"
| "truthy (V (JStr s)) = (s \<noteq> [])"
| "truthy (V (JRef a)) = True"
| "truthy (BuiltinFun f) = True"
| "truthy (BuiltinProto p) = True"

fun typeof :: "rtval \<Rightarrow> string" where
  "typeof (V JUndefined) = ''undefined''"
| "typeof (V JNull) = ''object''"
| "typeof (V (JBool b)) = ''boolean''"
| "typeof (V (JNum n)) = ''number''"
| "typeof (V (JStr s)) = ''string''"
| "typeof (V (JRef a)) = ''object''"
| "typeof (BuiltinFun f) = ''function''"
| "typeof (BuiltinProto p) = ''object''"

subsection \<open>Own and inherited properties\<close>

text \<open>
  The property names of \<open>Object.prototype\<close> and of \<open>Array.prototype\<close> (ECMAScript 2023,
  with the legacy accessors of Annex B). \<open>__proto__\<close> is an accessor of
  \<open>Object.prototype\<close>: reading it through an object yields that object's prototype.
\<close>

definition object_prototype_keys :: "string list" where
  "object_prototype_keys =
     [''constructor'', ''__defineGetter__'', ''__defineSetter__'', ''hasOwnProperty'',
      ''__lookupGetter__'', ''__lookupSetter__'', ''isPrototypeOf'',
      ''propertyIsEnumerable'', ''toString'', ''valueOf'', ''__proto__'',
      ''toLocaleString'']"

definition array_prototype_keys :: "string list" where
  "array_prototype_keys =
     [''length'', ''constructor'', ''at'', ''concat'', ''copyWithin'', ''fill'', ''find'',
      ''findIndex'', ''findLast'', ''findLastIndex'', ''lastIndexOf'', ''pop'', ''push'',
      ''reverse'', ''shift'', ''unshift'', ''slice'', ''sort'', ''splice'', ''includes'',
      ''indexOf'', ''join'', ''keys'', ''entries'', ''values'', ''forEach'', ''filter'',
      ''flat'', ''flatMap'', ''map'', ''every'', ''some'', ''reduce'', ''reduceRight'',
      ''toLocaleString'', ''toString'', ''toReversed'', ''toSorted'', ''toSpliced'',
      ''with'']"

text \<open>
  An array index is a canonical decimal numeral: \<open>''0''\<close>, or digits without a leading
  zero.
\<close>

definition is_digit :: "char \<Rightarrow> bool" where
  "is_digit c = ((48::nat) \<le> of_char c \<and> (of_char c :: nat) \<le> 57)"

definition index_of_key :: "string \<Rightarrow> nat option" where
  "index_of_key k =
     (if k = ''0'' then Some 0
      else if k \<noteq> [] \<and> list_all is_digit k \<and> hd k \<noteq> CHR ''0''
      then Some (fold (\<lambda>c n. 10 * n + ((of_char c :: nat) - 48)) k 0)
      else None)"

fun own_value :: "jsobj \<Rightarrow> string \<Rightarrow> jsval option" where
  "own_value (ObjPlain ps) k = map_of ps k"
| "own_value (ObjArray xs) k =
     (case index_of_key k of
        Some i \<Rightarrow> if i < length xs then Some (xs ! i) else None
      | None \<Rightarrow> if k = ''length'' then Some (JNum (int (length xs))) else None)"

fun proto_of_obj :: "jsobj \<Rightarrow> proto" where
  "proto_of_obj (ObjPlain ps) = ObjectPrototype"
| "proto_of_obj (ObjArray xs) = ArrayPrototype"

fun proto_parent :: "proto \<Rightarrow> rtval" where
  "proto_parent ObjectPrototype = V JNull"
| "proto_parent ArrayPrototype = BuiltinProto ObjectPrototype"

fun proto_has :: "proto \<Rightarrow> string \<Rightarrow> bool" where
  "proto_has ObjectPrototype k = (k \<in> set object_prototype_keys)"
| "proto_has ArrayPrototype k =
     (k \<in> set array_prototype_keys \<or> k \<in> set object_prototype_keys)"

text \<open>
  \<open>proto_get p recv_proto k\<close>: the value of property \<open>k\<close> found on prototype \<open>p\<close> or above it,
  for a receiver whose own prototype is \<open>recv_proto\<close> (what the \<open>__proto__\<close> accessor
  returns). A built-in method is named by the prototype that holds it.
\<close>

definition proto_get :: "proto \<Rightarrow> rtval \<Rightarrow> string \<Rightarrow> rtval" where
  "proto_get p recv_proto k =
     (if p = ArrayPrototype \<and> k \<in> set array_prototype_keys
      then (if k = ''length'' then V (JNum 0) else BuiltinFun (''Array.prototype.'' @ k))
      else if k = ''__proto__'' then recv_proto
      else if k \<in> set object_prototype_keys then BuiltinFun (''Object.prototype.'' @ k)
      else V JUndefined)"

text \<open>\<open>key in current\<close> and \<open>current[key]\<close>, for \<open>current\<close> an object.\<close>

fun js_in :: "heap \<Rightarrow> string \<Rightarrow> rtval \<Rightarrow> bool" where
  "js_in h k (V (JRef a)) =
     (own_value (obj_at h a) k \<noteq> None \<or> proto_has (proto_of_obj (obj_at h a)) k)"
| "js_in h k (BuiltinProto p) = proto_has p k"
| "js_in h k v = False"

fun js_get :: "heap \<Rightarrow> rtval \<Rightarrow> string \<Rightarrow> rtval" where
  "js_get h (V (JRef a)) k =
     (case own_value (obj_at h a) k of
        Some v \<Rightarrow> V v
      | None \<Rightarrow> proto_get (proto_of_obj (obj_at h a))
                  (BuiltinProto (proto_of_obj (obj_at h a))) k)"
| "js_get h (BuiltinProto p) k = proto_get p (proto_parent p) k"
| "js_get h v k = V JUndefined"

text \<open>
  A member read \<open>v[k]\<close> on any value: \<open>null\<close> and \<open>undefined\<close> throw, an object is read as
  above, and a primitive or a function would be read through its wrapper object.
\<close>

fun member :: "heap \<Rightarrow> rtval \<Rightarrow> string \<Rightarrow> rtval outcome" where
  "member h (V JUndefined) k = Throws TypeError"
| "member h (V JNull) k = Throws TypeError"
| "member h (V (JRef a)) k = Returns (js_get h (V (JRef a)) k)"
| "member h (BuiltinProto p) k = Returns (js_get h (BuiltinProto p) k)"
| "member h v k = Unmodelled"

section \<open>ApiResponseValidator\<close>

subsection \<open>Dot paths\<close>

text \<open>\<open>path.split('.')\<close>: the segments between dots; the empty path has one empty segment.\<close>

fun split_dot :: "string \<Rightarrow> string list" where
  "split_dot [] = [[]]"
| "split_dot (c # cs) =
     (if c = CHR ''.'' then [] # split_dot cs
      else (case split_dot cs of [] \<Rightarrow> [[c]] | w # ws \<Rightarrow> (c # w) # ws))"

text \<open>The loop of \<open>hasNestedProperty\<close>, from the current value over the remaining segments.\<close>

fun has_loop :: "heap \<Rightarrow> rtval \<Rightarrow> string list \<Rightarrow> bool" where
  "has_loop h current [] = True"
| "has_loop h current (key # keys) =
     (if truthy current \<and> typeof current = ''object'' \<and> js_in h key current
      then has_loop h (js_get h current key) keys
      else False)"

definition hasNestedProperty :: "heap \<Rightarrow> rtval \<Rightarrow> string \<Rightarrow> bool" where
  "hasNestedProperty h obj path = has_loop h obj (split_dot path)"

text \<open>The loop of \<open>getNestedProperty\<close>: every segment is read without a test.\<close>

fun get_loop :: "heap \<Rightarrow> rtval \<Rightarrow> string list \<Rightarrow> rtval outcome" where
  "get_loop h current [] = Returns current"
| "get_loop h current (key # keys) =
     (case member h current key of
        Returns v \<Rightarrow> get_loop h v keys
      | Throws e \<Rightarrow> Throws e
      | Unmodelled \<Rightarrow> Unmodelled)"

definition getNestedProperty :: "heap \<Rightarrow> rtval \<Rightarrow> string \<Rightarrow> rtval outcome" where
  "getNestedProperty h obj path = get_loop h obj (split_dot path)"

subsection \<open>The validator and field extraction\<close>

text \<open>
  \<open>fieldMappings\<close> and \<open>defaultValues\<close> are plain objects owned by the validator; their own
  entries are kept in insertion order. Callers extend \<open>fieldMappings\<close> at run time, so
  both tables are fields of the validator and not constants.
\<close>

record validator =
  fieldMappings :: "(string \<times> string list) list"
  defaultValues :: "(string \<times> jsval) list"

text \<open>
  \<open>this.fieldMappings[fieldName] || [fieldName]\<close>, then \<open>for (const key of possibleKeys)\<close>.
  The read goes through the prototype of the table: an own entry is an array of keys; a
  name of \<open>Object.prototype\<close> yields a built-in function or, for \<open>__proto__\<close>, the prototype
  object, which is truthy and not iterable, so the loop header throws; any other name is
  \<open>undefined\<close> and the one-element list is used. Neither an object literal nor an assignment
  can create an own entry named \<open>__proto__\<close>, so that name always reads the accessor.
\<close>

definition possibleKeys :: "validator \<Rightarrow> string \<Rightarrow> string list outcome" where
  "possibleKeys vd fieldName =
     (if fieldName = ''__proto__'' then Throws TypeError
      else case map_of (fieldMappings vd) fieldName of
        Some keys \<Rightarrow> Returns keys
      | None \<Rightarrow> if fieldName \<in> set object_prototype_keys then Throws TypeError
                else Returns [fieldName])"

fun extract_loop :: "heap \<Rightarrow> rtval \<Rightarrow> string list \<Rightarrow> rtval outcome" where
  "extract_loop h response [] = Returns (V JNull)"
| "extract_loop h response (key # keys) =
     (if hasNestedProperty h response key then getNestedProperty h response key
      else extract_loop h response keys)"

definition extractField :: "validator \<Rightarrow> heap \<Rightarrow> rtval \<Rightarrow> string \<Rightarrow> rtval outcome" where
  "extractField vd h response fieldName =
     (case possibleKeys vd fieldName of
        Returns keys \<Rightarrow> extract_loop h response keys
      | Throws e \<Rightarrow> Throws e
      | Unmodelled \<Rightarrow> Unmodelled)"

subsection \<open>Clock, randomness and the constructor\<close>

text \<open>
  The code reads the clock and the random generator. One call receives its readings as
  an input: \<open>date_now\<close> is the value of \<open>Date.now()\<close>, \<open>random36\<close> the string
  \<open>Math.random().toString(36)\<close>, and \<open>iso_read i\<close> the value of the call's \<open>i\<close>-th
  \<open>new Date().toISOString()\<close>.
\<close>

record env =
  date_now :: nat
  random36 :: string
  iso_read :: "nat \<Rightarrow> string"

fun show_nat :: "nat \<Rightarrow> string" where
  "show_nat n =
     (if n < 10 then [''0123456789'' ! n]
      else show_nat (n div 10) @ [''0123456789'' ! (n mod 10)])"

declare show_nat.simps [simp del]

text \<open>\<open>`fallback-${Date.now()}-${Math.random().toString(36).substr(2, 9)}`\<close>\<close>

definition generateFallbackId :: "env \<Rightarrow> string" where
  "generateFallbackId e =
     ''fallback-'' @ show_nat (date_now e) @ ''-'' @ take 9 (drop 2 (random36 e))"

definition default_fieldMappings :: "(string \<times> string list) list" where
  "default_fieldMappings =
     [(''content'', [''content'', ''text'', ''message'', ''response'', ''result'']),
      (''id'', [''id'', ''messageId'', ''requestId'', ''uuid'']),
      (''timestamp'', [''timestamp'', ''created_at'', ''time'', ''date'']),
      (''model'', [''model'', ''model_name'', ''modelName'', ''version'']),
      (''usage'', [''usage'', ''token_usage'', ''tokenUsage'', ''consumption'']),
      (''error'', [''error'', ''error_message'', ''errorMessage'', ''message''])]"

text \<open>
  The constructor evaluates the default values once; the \<open>usage\<close> default is an object,
  allocated in the store.
\<close>

definition new_validator :: "env \<Rightarrow> heap \<Rightarrow> validator \<times> heap" where
  "new_validator e h =
     (\<lparr>fieldMappings = default_fieldMappings,
       defaultValues =
         [(''content'', JStr []),
          (''id'', JStr (generateFallbackId e)),
          (''timestamp'', JStr (iso_read e 0)),
          (''model'', JStr ''unknown-model''),
          (''usage'', JRef (length h)),
          (''error'', JNull)]\<rparr>,
      h @ [ObjPlain [(''total_tokens'', JNum 0)]])"

subsection \<open>The normalized response\<close>

text \<open>
  The response under construction is a fresh plain object that nothing else refers to:
  it is kept as the list of its own properties. Its \<open>_validation\<close> record and the
  \<open>issues\<close> array are objects of the store, reached through references.
\<close>

type_synonym normalized = "(string \<times> rtval) list"

text \<open>\<open>obj[k]\<close> for such a local plain object.\<close>

definition local_get :: "(string \<times> rtval) list \<Rightarrow> string \<Rightarrow> rtval" where
  "local_get ps k =
     (case map_of ps k of
        Some v \<Rightarrow> v
      | None \<Rightarrow> proto_get ObjectPrototype (BuiltinProto ObjectPrototype) k)"

text \<open>\<open>this.defaultValues[field]\<close>\<close>

definition default_of :: "validator \<Rightarrow> string \<Rightarrow> rtval" where
  "default_of vd field = local_get (map (\<lambda>(k, v). (k, V v)) (defaultValues vd)) field"

text \<open>
  \<open>x.push(v)\<close>: an array of the store grows by one element. A plain object has no
  callable \<open>push\<close> (its own properties are data, and \<open>Object.prototype\<close> has none), so the
  call throws, as it does on \<open>null\<close> and \<open>undefined\<close>.
\<close>

fun js_push :: "heap \<Rightarrow> rtval \<Rightarrow> jsval \<Rightarrow> heap outcome" where
  "js_push h (V JUndefined) v = Throws TypeError"
| "js_push h (V JNull) v = Throws TypeError"
| "js_push h (V (JRef b)) v =
     (case obj_at h b of
        ObjArray xs \<Rightarrow> Returns (h[b := ObjArray (xs @ [v])])
      | ObjPlain ps \<Rightarrow> Throws TypeError)"
| "js_push h (BuiltinProto ObjectPrototype) v = Throws TypeError"
| "js_push h x v = Unmodelled"

text \<open>\<open>normalizedResponse._validation.issues.push(msg)\<close>\<close>

definition push_issue :: "heap \<Rightarrow> normalized \<Rightarrow> string \<Rightarrow> heap outcome" where
  "push_issue h nr msg =
     (case member h (local_get nr ''_validation'') ''issues'' of
        Returns issues \<Rightarrow> js_push h issues (JStr msg)
      | Throws e \<Rightarrow> Throws e
      | Unmodelled \<Rightarrow> Unmodelled)"

text \<open>The apology of the fallback response, as the UTF-8 bytes of the source literal.\<close>

definition apology_text :: string where
  "apology_text =
     [CHR 0xE6, CHR 0x8A, CHR 0xB1, CHR 0xE6, CHR 0xAD, CHR 0x89, CHR 0xEF, CHR 0xBC,
      CHR 0x8C, CHR 0x41, CHR 0x50, CHR 0x49, CHR 0xE5, CHR 0x93, CHR 0x8D, CHR 0xE5,
      CHR 0xBA, CHR 0x94, CHR 0xE5, CHR 0xA4, CHR 0x84, CHR 0xE7, CHR 0x90, CHR 0x86,
      CHR 0xE5, CHR 0x87, CHR 0xBA, CHR 0xE7, CHR 0x8E, CHR 0xB0, CHR 0xE9, CHR 0x97,
      CHR 0xAE, CHR 0xE9, CHR 0xA2, CHR 0x98, CHR 0xEF, CHR 0xBC, CHR 0x8C, CHR 0xE8,
      CHR 0xAF, CHR 0xB7, CHR 0xE7, CHR 0xA8, CHR 0x8D, CHR 0xE5, CHR 0x90, CHR 0x8E,
      CHR 0xE9, CHR 0x87, CHR 0x8D, CHR 0xE8, CHR 0xAF, CHR 0x95, CHR 0xE3, CHR 0x80,
      CHR 0x82]"

text \<open>
  \<open>createFallbackResponse\<close>; \<open>i\<close> is the number of \<open>toISOString\<close> readings the call has
  already made. The record has no \<open>_original\<close> property.
\<close>

definition createFallbackResponse :: "env \<Rightarrow> nat \<Rightarrow> heap \<Rightarrow> normalized \<times> heap" where
  "createFallbackResponse e i h =
     ([(''content'', V (JStr apology_text)),
       (''id'', V (JStr (generateFallbackId e))),
       (''timestamp'', V (JStr (iso_read e i))),
       (''model'', V (JStr ''fallback-model'')),
       (''usage'', V (JRef (length h))),
       (''error'', V (JStr ''API compatibility issue detected'')),
       (''_validation'', V (JRef (length h + 1)))],
      h @ [ObjPlain [(''total_tokens'', JNum 0)],
           ObjPlain [(''timestamp'', JStr (iso_read e (i + 1))),
                     (''issues'', JRef (length h + 2))],
           ObjArray [JStr ''Complete fallback response generated'']])"

subsection \<open>validateAndNormalize\<close>

text \<open>
  The loop over the required fields. \<open>normalizedResponse[field] = value\<close> sets an own
  property; an exception leaves the loop with the store as it is at that moment.
\<close>

fun required_loop ::
  "validator \<Rightarrow> heap \<Rightarrow> rtval \<Rightarrow> string list \<Rightarrow> normalized \<Rightarrow> normalized outcome \<times> heap" where
  "required_loop vd h response [] nr = (Returns nr, h)"
| "required_loop vd h response (field # rest) nr =
     (case extractField vd h response field of
        Returns value \<Rightarrow>
          if value \<noteq> V JNull
          then required_loop vd h response rest (AList.update field value nr)
          else (case push_issue h (AList.update field (default_of vd field) nr)
                       (''Missing field: '' @ field) of
                  Returns h' \<Rightarrow>
                    required_loop vd h' response rest
                      (AList.update field (default_of vd field) nr)
                | Throws e \<Rightarrow> (Throws e, h)
                | Unmodelled \<Rightarrow> (Unmodelled, h))
      | Throws e \<Rightarrow> (Throws e, h)
      | Unmodelled \<Rightarrow> (Unmodelled, h))"

definition optionalFields :: "string list" where
  "optionalFields = [''id'', ''timestamp'', ''model'', ''usage'', ''error'']"

fun optional_loop ::
  "validator \<Rightarrow> heap \<Rightarrow> rtval \<Rightarrow> string list \<Rightarrow> normalized \<Rightarrow> normalized outcome" where
  "optional_loop vd h response [] nr = Returns nr"
| "optional_loop vd h response (field # rest) nr =
     (if \<not> truthy (local_get nr field)
      then (case extractField vd h response field of
              Returns value \<Rightarrow>
                optional_loop vd h response rest
                  (AList.update field
                     (if value \<noteq> V JNull then value else default_of vd field) nr)
            | Throws e \<Rightarrow> Throws e
            | Unmodelled \<Rightarrow> Unmodelled)
      else optional_loop vd h response rest nr)"

text \<open>
  The guard sends everything that is not a non-null object to the fallback record.
  Otherwise the \<open>_validation\<close> record and its empty \<open>issues\<close> array are allocated, and the
  two loops run.
\<close>

definition validateAndNormalize ::
  "validator \<Rightarrow> heap \<Rightarrow> rtval \<Rightarrow> string list \<Rightarrow> env \<Rightarrow> normalized outcome \<times> heap" where
  "validateAndNormalize vd h response requiredFields e =
     (if \<not> truthy response \<or> typeof response \<noteq> ''object''
      then (Returns (fst (createFallbackResponse e 0 h)), snd (createFallbackResponse e 0 h))
      else
        (case required_loop vd
                (h @ [ObjPlain [(''timestamp'', JStr (iso_read e 0)),
                                (''issues'', JRef (length h + 1))],
                      ObjArray []])
                response requiredFields
                [(''_original'', response), (''_validation'', V (JRef (length h)))] of
           (Returns nr, h') \<Rightarrow> (optional_loop vd h' response optionalFields nr, h')
         | (Throws err, h') \<Rightarrow> (Throws err, h')
         | (Unmodelled, h') \<Rightarrow> (Unmodelled, h')))"

section \<open>VuePressApiHandler\<close>

text \<open>
  \<open>errorCount\<close> is a JavaScript number that only ever holds a count; counts are exact
  far beyond any number of calls a process makes, so it is a natural number here.
\<close>

record handler =
  validator :: validator
  errorCount :: nat
  maxErrors :: nat

definition new_handler :: "env \<Rightarrow> heap \<Rightarrow> handler \<times> heap" where
  "new_handler e h =
     (\<lparr>validator = fst (new_validator e h), errorCount = 0, maxErrors = 5\<rparr>,
      snd (new_validator e h))"

text \<open>
  The options record; \<open>None\<close> is a property that is missing or \<open>undefined\<close>, for which
  the destructuring pattern supplies the default.
\<close>

record options =
  opt_requiredFields :: "string list option"
  opt_enableLogging :: "bool option"
  opt_enableFallback :: "bool option"

definition default_options :: options where
  "default_options =
     \<lparr>opt_requiredFields = None, opt_enableLogging = None, opt_enableFallback = None\<rparr>"

definition requiredFields_of :: "options \<Rightarrow> string list" where
  "requiredFields_of opts =
     (case opt_requiredFields opts of Some fs \<Rightarrow> fs | None \<Rightarrow> [''content''])"

definition enableFallback_of :: "options \<Rightarrow> bool" where
  "enableFallback_of opts = (case opt_enableFallback opts of Some b \<Rightarrow> b | None \<Rightarrow> True)"

text \<open>
  \<open>x > 0\<close> for the values whose conversion to a number needs no parsing: \<open>undefined\<close> is
  \<open>NaN\<close>, \<open>null\<close> is 0, \<open>true\<close> is 1.
\<close>

fun gt_zero :: "rtval \<Rightarrow> bool outcome" where
  "gt_zero (V (JNum n)) = Returns (0 < n)"
| "gt_zero (V JUndefined) = Returns False"
| "gt_zero (V JNull) = Returns False"
| "gt_zero (V (JBool b)) = Returns b"
| "gt_zero v = Unmodelled"

text \<open>\<open>normalizedResponse._validation.issues.length > 0\<close>\<close>

definition issues_present :: "heap \<Rightarrow> normalized \<Rightarrow> bool outcome" where
  "issues_present h nr =
     (case member h (local_get nr ''_validation'') ''issues'' of
        Returns issues \<Rightarrow>
          (case member h issues ''length'' of
             Returns n \<Rightarrow> gt_zero n
           | Throws e \<Rightarrow> Throws e
           | Unmodelled \<Rightarrow> Unmodelled)
      | Throws e \<Rightarrow> Throws e
      | Unmodelled \<Rightarrow> Unmodelled)"

text \<open>
  The \<open>catch\<close> block: the fallback record, or the exception again. The handler itself is
  not changed. One \<open>toISOString\<close> reading was made before the exception.
\<close>

definition catch_block ::
  "handler \<Rightarrow> heap \<Rightarrow> options \<Rightarrow> env \<Rightarrow> js_error \<Rightarrow> normalized outcome \<times> handler \<times> heap" where
  "catch_block hdl h opts e err =
     (if enableFallback_of opts
      then (Returns (fst (createFallbackResponse e 1 h)), hdl,
            snd (createFallbackResponse e 1 h))
      else (Throws err, hdl, h))"

text \<open>
  \<open>handleApiResponse\<close>. \<open>enableLogging\<close> only selects console output, which is not part
  of the state.
\<close>

definition handleApiResponse ::
  "handler \<Rightarrow> heap \<Rightarrow> rtval \<Rightarrow> options \<Rightarrow> env \<Rightarrow> normalized outcome \<times> handler \<times> heap" where
  "handleApiResponse hdl h apiResponse opts e =
     (case validateAndNormalize (validator hdl) h apiResponse (requiredFields_of opts) e of
        (Returns normalizedResponse, h') \<Rightarrow>
          (case issues_present h' normalizedResponse of
             Returns True \<Rightarrow>
               (Returns normalizedResponse, hdl\<lparr>errorCount := errorCount hdl + 1\<rparr>, h')
           | Returns False \<Rightarrow> (Returns normalizedResponse, hdl\<lparr>errorCount := 0\<rparr>, h')
           | Throws err \<Rightarrow> catch_block hdl h' opts e err
           | Unmodelled \<Rightarrow> (Unmodelled, hdl, h'))
      | (Throws err, h') \<Rightarrow> catch_block hdl h' opts e err
      | (Unmodelled, h') \<Rightarrow> (Unmodelled, hdl, h'))"

text \<open>The four advisory strings of \<open>getRecommendations\<close>, as UTF-8 bytes.\<close>

definition rec_check_format :: string where
  "rec_check_format =
     [CHR 0xE6, CHR 0xA3, CHR 0x80, CHR 0xE6, CHR 0x9F, CHR 0xA5, CHR 0x41, CHR 0x50,
      CHR 0x49, CHR 0xE5, CHR 0x93, CHR 0x8D, CHR 0xE5, CHR 0xBA, CHR 0x94, CHR 0xE6,
      CHR 0xA0, CHR 0xBC, CHR 0xE5, CHR 0xBC, CHR 0x8F, CHR 0xE6, CHR 0x98, CHR 0xAF,
      CHR 0xE5, CHR 0x90, CHR 0xA6, CHR 0xE5, CHR 0x8F, CHR 0x91, CHR 0xE7, CHR 0x94,
      CHR 0x9F, CHR 0xE5, CHR 0x8F, CHR 0x98, CHR 0xE5, CHR 0x8C, CHR 0x96]"

definition rec_update_mapping :: string where
  "rec_update_mapping =
     [CHR 0xE8, CHR 0x80, CHR 0x83, CHR 0xE8, CHR 0x99, CHR 0x91, CHR 0xE6, CHR 0x9B,
      CHR 0xB4, CHR 0xE6, CHR 0x96, CHR 0xB0, CHR 0xE5, CHR 0xAD, CHR 0x97, CHR 0xE6,
      CHR 0xAE, CHR 0xB5, CHR 0xE6, CHR 0x98, CHR 0xA0, CHR 0xE5, CHR 0xB0, CHR 0x84,
      CHR 0xE9, CHR 0x85, CHR 0x8D, CHR 0xE7, CHR 0xBD, CHR 0xAE]"

definition rec_contact_provider :: string where
  "rec_contact_provider =
     [CHR 0xE5, CHR 0xBB, CHR 0xBA, CHR 0xE8, CHR 0xAE, CHR 0xAE, CHR 0xE8, CHR 0x81,
      CHR 0x94, CHR 0xE7, CHR 0xB3, CHR 0xBB, CHR 0x41, CHR 0x50, CHR 0x49, CHR 0xE6,
      CHR 0x8F, CHR 0x90, CHR 0xE4, CHR 0xBE, CHR 0x9B, CHR 0xE6, CHR 0x96, CHR 0xB9,
      CHR 0xE7, CHR 0xA1, CHR 0xAE, CHR 0xE8, CHR 0xAE, CHR 0xA4, CHR 0xE7, CHR 0x89,
      CHR 0x88, CHR 0xE6, CHR 0x9C, CHR 0xAC, CHR 0xE5, CHR 0x85, CHR 0xBC, CHR 0xE5,
      CHR 0xAE, CHR 0xB9, CHR 0xE6, CHR 0x80, CHR 0xA7]"

definition rec_version_detection :: string where
  "rec_version_detection =
     [CHR 0xE8, CHR 0x80, CHR 0x83, CHR 0xE8, CHR 0x99, CHR 0x91, CHR 0xE5, CHR 0xAE,
      CHR 0x9E, CHR 0xE6, CHR 0x96, CHR 0xBD, CHR 0x41, CHR 0x50, CHR 0x49, CHR 0xE7,
      CHR 0x89, CHR 0x88, CHR 0xE6, CHR 0x9C, CHR 0xAC, CHR 0xE6, CHR 0xA3, CHR 0x80,
      CHR 0xE6, CHR 0xB5, CHR 0x8B, CHR 0xE6, CHR 0x9C, CHR 0xBA, CHR 0xE5, CHR 0x88,
      CHR 0xB6]"

definition getRecommendations :: "handler \<Rightarrow> string list" where
  "getRecommendations hdl =
     (if errorCount hdl > 0 then [rec_check_format, rec_update_mapping] else []) @
     (if errorCount hdl > maxErrors hdl then [rec_contact_provider, rec_version_detection]
      else [])"

record report =
  report_timestamp :: string
  report_errorCount :: nat
  report_maxErrors :: nat
  status :: string
  recommendations :: "string list"

definition generateErrorReport :: "handler \<Rightarrow> env \<Rightarrow> report" where
  "generateErrorReport hdl e =
     \<lparr>report_timestamp = iso_read e 0,
      report_errorCount = errorCount hdl,
      report_maxErrors = maxErrors hdl,
      status = (if errorCount hdl > maxErrors hdl then ''critical'' else ''normal''),
      recommendations = getRecommendations hdl\<rparr>"

section \<open>Notions used by the statements\<close>

text \<open>
  What a consumer reads as \<open>result._validation.issues\<close>, when that is an array of the
  store: its elements.
\<close>

definition issues_of :: "heap \<Rightarrow> normalized \<Rightarrow> jsval list option" where
  "issues_of h nr =
     (case local_get nr ''_validation'' of
        V (JRef a) \<Rightarrow>
          (case own_value (obj_at h a) ''issues'' of
             Some (JRef b) \<Rightarrow>
               (case obj_at h b of ObjArray xs \<Rightarrow> Some xs | ObjPlain ps \<Rightarrow> None)
           | _ \<Rightarrow> None)
      | _ \<Rightarrow> None)"

text \<open>
  A store is closed when every reference held by one of its objects points into it; a
  value lies in the store when it is not a reference or points into it. Every store
  that a program builds is closed.
\<close>

fun ref_below :: "nat \<Rightarrow> jsval \<Rightarrow> bool" where
  "ref_below n (JRef a) = (a < n)"
| "ref_below n v = True"

fun obj_closed :: "nat \<Rightarrow> jsobj \<Rightarrow> bool" where
  "obj_closed n (ObjPlain ps) = list_all (\<lambda>p. ref_below n (snd p)) ps"
| "obj_closed n (ObjArray xs) = list_all (ref_below n) xs"

definition heap_closed :: "heap \<Rightarrow> bool" where
  "heap_closed h = list_all (obj_closed (length h)) h"

fun val_below :: "nat \<Rightarrow> rtval \<Rightarrow> bool" where
  "val_below n (V v) = ref_below n v"
| "val_below n x = True"

text \<open>
  The presence test as the specification words it: every segment is an own key of the
  non-null object reached so far.
\<close>

fun own_path :: "heap \<Rightarrow> rtval \<Rightarrow> string list \<Rightarrow> bool" where
  "own_path h current [] = True"
| "own_path h (V (JRef a)) (key # keys) =
     (case own_value (obj_at h a) key of
        Some v \<Rightarrow> own_path h (V v) keys
      | None \<Rightarrow> False)"
| "own_path h current (key # keys) = False"

text \<open>The value reached from \<open>obj\<close> after reading the segments \<open>ks\<close> one after the other.\<close>

definition reached :: "heap \<Rightarrow> rtval \<Rightarrow> string list \<Rightarrow> rtval" where
  "reached h obj ks = foldl (js_get h) obj ks"

text \<open>Clock and random readings for the examples.\<close>

definition clock_a :: env where
  "clock_a =
     \<lparr>date_now = 1700000000000, random36 = ''0.4fzyo82mvyr'',
      iso_read = (\<lambda>i. if i = 0 then ''2023-11-14T22:13:20.000Z''
                       else ''2023-11-14T22:13:20.001Z'')\<rparr>"

definition clock_b :: env where
  "clock_b =
     \<lparr>date_now = 1700000360000, random36 = ''0.k9x2m4q7w1e'',
      iso_read = (\<lambda>i. if i = 0 then ''2023-11-14T22:19:20.000Z''
                       else ''2023-11-14T22:19:20.001Z'')\<rparr>"

definition clock_c :: env where
  "clock_c =
     \<lparr>date_now = 1700000720000, random36 = ''0.z3r8t5y1u6b'',
      iso_read = (\<lambda>i. if i = 0 then ''2023-11-14T22:25:20.000Z''
                       else ''2023-11-14T22:25:20.001Z'')\<rparr>"

text \<open>
  A validator as the constructor builds it in an empty store, and two stores that hold
  its \<open>usage\<close> default at address 0 and a response at address 1: the empty object \<open>{}\<close>,
  and \<open>{ content: "hello" }\<close>.
\<close>

definition example_validator :: validator where
  "example_validator = fst (new_validator clock_a [])"

definition store_empty_object :: heap where
  "store_empty_object = snd (new_validator clock_a []) @ [ObjPlain []]"

definition store_content_only :: heap where
  "store_content_only =
     snd (new_validator clock_a []) @ [ObjPlain [(''content'', JStr ''hello'')]]"

text \<open>Consecutive calls of \<open>handleApiResponse\<close> with default options on one handler.\<close>

fun run_calls :: "handler \<Rightarrow> heap \<Rightarrow> (rtval \<times> env) list \<Rightarrow> handler \<times> heap" where
  "run_calls hdl h [] = (hdl, h)"
| "run_calls hdl h (c # cs) =
     run_calls (fst (snd (handleApiResponse hdl h (fst c) default_options (snd c))))
       (snd (snd (handleApiResponse hdl h (fst c) default_options (snd c)))) cs"

text \<open>The property \<open>k\<close> of the response that a call returned.\<close>

fun result_field :: "normalized outcome \<Rightarrow> string \<Rightarrow> rtval" where
  "result_field (Returns nr) k = local_get nr k"
| "result_field out k = V JUndefined"

section \<open>Evaluation of concrete inputs\<close>

lemmas lookup_defs =
  obj_at_def object_prototype_keys_def array_prototype_keys_def proto_get_def
  index_of_key_def is_digit_def local_get_def

lemmas path_defs = hasNestedProperty_def getNestedProperty_def

lemmas extract_defs = extractField_def possibleKeys_def default_fieldMappings_def

section \<open>Dot-path presence and traversal\<close>

text \<open>
  The loop of \<open>hasNestedProperty\<close> succeeds exactly when, at every position of the path,
  the value reached so far is a non-null object that has the segment under \<open>in\<close>.
\<close>

lemma has_loop_steps:
  "has_loop h obj ks \<longleftrightarrow>
     (\<forall>i < length ks. truthy (reached h obj (take i ks)) \<and>
        typeof (reached h obj (take i ks)) = ''object'' \<and>
        js_in h (ks ! i) (reached h obj (take i ks)))"
proof (induction ks arbitrary: obj)
  case Nil
  show ?case by simp
next
  case (Cons k ks)
  let ?step = "\<lambda>i. truthy (reached h obj (take i (k # ks))) \<and>
        typeof (reached h obj (take i (k # ks))) = ''object'' \<and>
        js_in h ((k # ks) ! i) (reached h obj (take i (k # ks)))"
  show ?case
  proof
    assume a: "has_loop h obj (k # ks)"
    then have first: "truthy obj \<and> typeof obj = ''object'' \<and> js_in h k obj"
      and later: "has_loop h (js_get h obj k) ks"
      by (simp_all split: if_splits)
    show "\<forall>i < length (k # ks). ?step i"
    proof (intro allI impI)
      fix i assume "i < length (k # ks)"
      then show "?step i"
        using first later Cons.IH [of "js_get h obj k"]
        by (cases i) (auto simp: reached_def)
    qed
  next
    assume r: "\<forall>i < length (k # ks). ?step i"
    from r [rule_format, of 0]
    have first: "truthy obj \<and> typeof obj = ''object'' \<and> js_in h k obj"
      by (simp add: reached_def)
    have "has_loop h (js_get h obj k) ks"
      unfolding Cons.IH [of "js_get h obj k"]
    proof (intro allI impI)
      fix i assume "i < length ks"
      then show "truthy (reached h (js_get h obj k) (take i ks)) \<and>
        typeof (reached h (js_get h obj k) (take i ks)) = ''object'' \<and>
        js_in h (ks ! i) (reached h (js_get h obj k) (take i ks))"
        using r [rule_format, of "Suc i"] by (simp add: reached_def)
    qed
    with first show "has_loop h obj (k # ks)" by simp
  qed
qed

text \<open>Where the specification's own-key reading holds, the code's test holds too.\<close>

lemma own_path_has_loop: "own_path h obj ks \<Longrightarrow> has_loop h obj ks"
proof (induction h obj ks rule: own_path.induct)
  case (2 h a key keys)
  then show ?case by (auto split: option.splits)
qed simp_all

text \<open>A value that passes the object test is read without an exception.\<close>

lemma member_object:
  "truthy c \<Longrightarrow> typeof c = ''object'' \<Longrightarrow> member h c k = Returns (js_get h c k)"
  by (cases "(h, c, k)" rule: member.cases) auto

text \<open>
  Under the guard, the unguarded traversal of \<open>getNestedProperty\<close> returns the value
  reached along the path: no step meets \<open>null\<close>, \<open>undefined\<close> or a primitive.
\<close>

lemma get_loop_guarded:
  "has_loop h obj ks \<Longrightarrow> get_loop h obj ks = Returns (reached h obj ks)"
  by (induction ks arbitrary: obj)
     (auto simp: member_object reached_def split: if_splits)

lemma getNestedProperty_guarded:
  "hasNestedProperty h obj path \<Longrightarrow>
   getNestedProperty h obj path = Returns (reached h obj (split_dot path))"
  by (simp add: path_defs get_loop_guarded)

lemma extract_loop_returns: "\<exists>v. extract_loop h response ks = Returns v"
  by (induction ks) (auto simp: getNestedProperty_guarded)

lemma extract_loop_absent:
  "\<forall>k \<in> set ks. \<not> hasNestedProperty h response k \<Longrightarrow>
   extract_loop h response ks = Returns (V JNull)"
  by (induction ks) auto

lemma extract_loop_first:
  "\<forall>k \<in> set pre. \<not> hasNestedProperty h response k \<Longrightarrow>
   hasNestedProperty h response key \<Longrightarrow>
   extract_loop h response (pre @ key # post) = getNestedProperty h response key"
  by (induction pre) auto

text \<open>
  Once the candidate list has been read from the table, \<open>extractField\<close> returns a value
  for every response, whatever its shape.
\<close>

lemma extractField_returns:
  "possibleKeys vd fieldName = Returns ks \<Longrightarrow>
   \<exists>v. extractField vd h response fieldName = Returns v"
  by (simp add: extractField_def extract_loop_returns)

lemma possibleKeys_cases:
  "possibleKeys vd fieldName = Throws TypeError \<or>
   (\<exists>ks. possibleKeys vd fieldName = Returns ks)"
  by (auto simp: possibleKeys_def split: option.splits)

lemma extractField_not_Unmodelled: "extractField vd h response fieldName \<noteq> Unmodelled"
  using possibleKeys_cases [of vd fieldName] extractField_returns [of vd fieldName _ h response]
  by (auto simp: extractField_def)

text \<open>
  \<open>extractField\<close> throws exactly for the field names whose table entry is read from
  \<open>Object.prototype\<close>.
\<close>

lemma extractField_throws_iff:
  "extractField vd h response fieldName = Throws TypeError \<longleftrightarrow>
     fieldName = ''__proto__'' \<or>
     (map_of (fieldMappings vd) fieldName = None \<and> fieldName \<in> set object_prototype_keys)"
proof (cases "possibleKeys vd fieldName")
  case (Returns ks)
  obtain v where "extract_loop h response ks = Returns v"
    using extract_loop_returns by blast
  with Returns have "extractField vd h response fieldName \<noteq> Throws TypeError"
    by (simp add: extractField_def)
  moreover from Returns have "\<not> (fieldName = ''__proto__'' \<or>
     (map_of (fieldMappings vd) fieldName = None \<and> fieldName \<in> set object_prototype_keys))"
    by (auto simp: possibleKeys_def split: option.splits if_splits)
  ultimately show ?thesis by blast
next
  case (Throws e)
  then have "extractField vd h response fieldName = Throws TypeError"
    by (cases e) (simp add: extractField_def)
  moreover from Throws have "fieldName = ''__proto__'' \<or>
     (map_of (fieldMappings vd) fieldName = None \<and> fieldName \<in> set object_prototype_keys)"
    by (auto simp: possibleKeys_def split: option.splits if_splits)
  ultimately show ?thesis by blast
next
  case Unmodelled
  then show ?thesis using possibleKeys_cases [of vd fieldName] by auto
qed

section \<open>Claims about field resolution\<close>

text \<open>
  C2, as the code has it. When none of the candidate keys is present, \<open>extractField\<close>
  returns \<open>null\<close>. That is no dedicated marker: it is the value that is also returned
  for a key that is present and stores \<open>null\<close>.
\<close>

theorem extractField_absent_returns_null:
  assumes "possibleKeys vd fieldName = Returns ks"
    and "\<forall>k \<in> set ks. \<not> hasNestedProperty h response k"
  shows "extractField vd h response fieldName = Returns (V JNull)"
  using assms by (simp add: extractField_def extract_loop_absent)

theorem extractField_absent_returns_null_witness:
  "possibleKeys \<lparr>fieldMappings = default_fieldMappings, defaultValues = []\<rparr> ''model''
     = Returns [''model'', ''model_name'', ''modelName'', ''version''] \<and>
   extractField \<lparr>fieldMappings = default_fieldMappings, defaultValues = []\<rparr>
     [ObjPlain [(''content'', JStr ''hi'')]] (V (JRef 0)) ''model'' = Returns (V JNull)"
proof -
  let ?vd = "\<lparr>fieldMappings = default_fieldMappings, defaultValues = []\<rparr>"
  let ?h = "[ObjPlain [(''content'', JStr ''hi'')]]"
  have keys: "possibleKeys ?vd ''model''
      = Returns [''model'', ''model_name'', ''modelName'', ''version'']"
    by (simp add: extract_defs)
  have absent: "\<forall>k \<in> set [''model'', ''model_name'', ''modelName'', ''version''].
      \<not> hasNestedProperty ?h (V (JRef 0)) k"
    by (simp add: path_defs lookup_defs)
  show ?thesis
    using keys extractField_absent_returns_null [OF keys absent] by simp
qed

text \<open>
  C2 as stated fails: for the empty object \<open>{}\<close> (address 0) no candidate of \<open>content\<close>
  is present, for \<open>{ content: null }\<close> (address 1) the first candidate is present, and
  the two calls return the same value \<open>null\<close>.
\<close>

theorem extractField_absence_marker_counterexample:
  "\<not> hasNestedProperty [ObjPlain [], ObjPlain [(''content'', JNull)]] (V (JRef 0)) ''content'' \<and>
   \<not> hasNestedProperty [ObjPlain [], ObjPlain [(''content'', JNull)]] (V (JRef 0)) ''text'' \<and>
   \<not> hasNestedProperty [ObjPlain [], ObjPlain [(''content'', JNull)]] (V (JRef 0)) ''message'' \<and>
   \<not> hasNestedProperty [ObjPlain [], ObjPlain [(''content'', JNull)]] (V (JRef 0)) ''response'' \<and>
   \<not> hasNestedProperty [ObjPlain [], ObjPlain [(''content'', JNull)]] (V (JRef 0)) ''result'' \<and>
   extractField \<lparr>fieldMappings = default_fieldMappings, defaultValues = []\<rparr>
     [ObjPlain [], ObjPlain [(''content'', JNull)]] (V (JRef 0)) ''content'' = Returns (V JNull) \<and>
   hasNestedProperty [ObjPlain [], ObjPlain [(''content'', JNull)]] (V (JRef 1)) ''content'' \<and>
   extractField \<lparr>fieldMappings = default_fieldMappings, defaultValues = []\<rparr>
     [ObjPlain [], ObjPlain [(''content'', JNull)]] (V (JRef 1)) ''content'' = Returns (V JNull)"
  by (simp add: extract_defs path_defs lookup_defs)

text \<open>
  C6, as the code has it. The presence test holds exactly when, for every segment of
  the path in turn, the value reached through the earlier segments is a non-null object
  that has the segment under the \<open>in\<close> operator, which accepts own keys and keys
  inherited from the prototype chain alike.
\<close>

theorem hasNestedProperty_iff_in_chain:
  "hasNestedProperty h obj path \<longleftrightarrow>
     (\<forall>i < length (split_dot path).
        truthy (reached h obj (take i (split_dot path))) \<and>
        typeof (reached h obj (take i (split_dot path))) = ''object'' \<and>
        js_in h (split_dot path ! i) (reached h obj (take i (split_dot path))))"
  unfolding hasNestedProperty_def by (rule has_loop_steps)

theorem hasNestedProperty_iff_in_chain_witness:
  "split_dot ''data.message'' = [''data'', ''message''] \<and>
   reached [ObjPlain [(''data'', JRef 1)], ObjPlain [(''message'', JStr ''x'')]]
     (V (JRef 0)) [''data''] = V (JRef 1) \<and>
   js_in [ObjPlain [(''data'', JRef 1)], ObjPlain [(''message'', JStr ''x'')]]
     ''data'' (V (JRef 0)) \<and>
   js_in [ObjPlain [(''data'', JRef 1)], ObjPlain [(''message'', JStr ''x'')]]
     ''message'' (V (JRef 1)) \<and>
   hasNestedProperty [ObjPlain [(''data'', JRef 1)], ObjPlain [(''message'', JStr ''x'')]]
     (V (JRef 0)) ''data.message''"
proof -
  let ?h = "[ObjPlain [(''data'', JRef 1)], ObjPlain [(''message'', JStr ''x'')]]"
  have sp: "split_dot ''data.message'' = [''data'', ''message'']" by simp
  have r1: "reached ?h (V (JRef 0)) [''data''] = V (JRef 1)"
    by (simp add: reached_def lookup_defs)
  have i0: "js_in ?h ''data'' (V (JRef 0))" by (simp add: lookup_defs)
  have i1: "js_in ?h ''message'' (V (JRef 1))" by (simp add: lookup_defs)
  have steps: "\<forall>i < length (split_dot ''data.message'').
        truthy (reached ?h (V (JRef 0)) (take i (split_dot ''data.message''))) \<and>
        typeof (reached ?h (V (JRef 0)) (take i (split_dot ''data.message''))) = ''object'' \<and>
        js_in ?h (split_dot ''data.message'' ! i)
          (reached ?h (V (JRef 0)) (take i (split_dot ''data.message'')))"
  proof (intro allI impI)
    fix i assume "i < length (split_dot ''data.message'')"
    then have "i = 0 \<or> i = 1" unfolding sp by auto
    then show "truthy (reached ?h (V (JRef 0)) (take i (split_dot ''data.message''))) \<and>
        typeof (reached ?h (V (JRef 0)) (take i (split_dot ''data.message''))) = ''object'' \<and>
        js_in ?h (split_dot ''data.message'' ! i)
          (reached ?h (V (JRef 0)) (take i (split_dot ''data.message'')))"
      unfolding sp using r1 i0 i1 by (auto simp: reached_def)
  qed
  have "hasNestedProperty ?h (V (JRef 0)) ''data.message''"
    using hasNestedProperty_iff_in_chain [of ?h "V (JRef 0)" "''data.message''"] steps
    by blast
  with sp r1 i0 i1 show ?thesis by blast
qed

text \<open>
  C6 as stated fails: \<open>toString\<close> is not an own key of the empty object \<open>{}\<close>, it is
  inherited from \<open>Object.prototype\<close>, and the presence test holds for it.
\<close>

theorem hasNestedProperty_own_key_counterexample:
  "hasNestedProperty [ObjPlain []] (V (JRef 0)) ''toString'' \<and>
   own_value (obj_at [ObjPlain []] 0) ''toString'' = None \<and>
   \<not> own_path [ObjPlain []] (V (JRef 0)) (split_dot ''toString'')"
  by (simp add: path_defs lookup_defs)

text \<open>
  C7. The value of the first candidate key that is present is returned, whatever
  follows it in the list. For \<open>{ text: "a", content: "b" }\<close> the constructor's table, which
  lists \<open>content\<close> ahead of \<open>text\<close>, gives \<open>"b"\<close>, and a table with the two in the other
  order gives \<open>"a"\<close>.
\<close>

theorem extractField_table_order:
  "(possibleKeys vd fieldName = Returns (pre @ key # post) \<longrightarrow>
      (\<forall>k \<in> set pre. \<not> hasNestedProperty h response k) \<longrightarrow>
      hasNestedProperty h response key \<longrightarrow>
      extractField vd h response fieldName = getNestedProperty h response key \<and>
      extractField vd h response fieldName = Returns (reached h response (split_dot key))) \<and>
   extractField \<lparr>fieldMappings = default_fieldMappings, defaultValues = []\<rparr>
     [ObjPlain [(''text'', JStr ''a''), (''content'', JStr ''b'')]] (V (JRef 0)) ''content''
     = Returns (V (JStr ''b'')) \<and>
   extractField
     \<lparr>fieldMappings = [(''content'', [''text'', ''content'', ''message'', ''response'', ''result''])],
      defaultValues = []\<rparr>
     [ObjPlain [(''text'', JStr ''a''), (''content'', JStr ''b'')]] (V (JRef 0)) ''content''
     = Returns (V (JStr ''a''))"
proof (intro conjI impI)
  assume "possibleKeys vd fieldName = Returns (pre @ key # post)"
    and "\<forall>k \<in> set pre. \<not> hasNestedProperty h response k"
    and "hasNestedProperty h response key"
  then show "extractField vd h response fieldName = getNestedProperty h response key"
    and "extractField vd h response fieldName = Returns (reached h response (split_dot key))"
    by (simp_all add: extractField_def extract_loop_first getNestedProperty_guarded)
next
  show "extractField \<lparr>fieldMappings = default_fieldMappings, defaultValues = []\<rparr>
     [ObjPlain [(''text'', JStr ''a''), (''content'', JStr ''b'')]] (V (JRef 0)) ''content''
     = Returns (V (JStr ''b''))"
    by (simp add: extract_defs path_defs lookup_defs)
next
  show "extractField
     \<lparr>fieldMappings = [(''content'', [''text'', ''content'', ''message'', ''response'', ''result''])],
      defaultValues = []\<rparr>
     [ObjPlain [(''text'', JStr ''a''), (''content'', JStr ''b'')]] (V (JRef 0)) ''content''
     = Returns (V (JStr ''a''))"
    by (simp add: extract_defs path_defs lookup_defs)
qed

theorem extractField_table_order_witness:
  "possibleKeys \<lparr>fieldMappings = default_fieldMappings, defaultValues = []\<rparr> ''content''
     = Returns ([''content''] @ ''text'' # [''message'', ''response'', ''result'']) \<and>
   \<not> hasNestedProperty [ObjPlain [(''text'', JStr ''a''), (''message'', JStr ''c'')]]
       (V (JRef 0)) ''content'' \<and>
   hasNestedProperty [ObjPlain [(''text'', JStr ''a''), (''message'', JStr ''c'')]]
       (V (JRef 0)) ''text'' \<and>
   extractField \<lparr>fieldMappings = default_fieldMappings, defaultValues = []\<rparr>
     [ObjPlain [(''text'', JStr ''a''), (''message'', JStr ''c'')]] (V (JRef 0)) ''content''
     = Returns (V (JStr ''a''))"
proof -
  let ?vd = "\<lparr>fieldMappings = default_fieldMappings, defaultValues = []\<rparr>"
  let ?h = "[ObjPlain [(''text'', JStr ''a''), (''message'', JStr ''c'')]]"
  have keys: "possibleKeys ?vd ''content''
      = Returns ([''content''] @ ''text'' # [''message'', ''response'', ''result''])"
    by (simp add: extract_defs)
  have before: "\<forall>k \<in> set [''content'']. \<not> hasNestedProperty ?h (V (JRef 0)) k"
    by (simp add: path_defs lookup_defs)
  have here: "hasNestedProperty ?h (V (JRef 0)) ''text''"
    by (simp add: path_defs lookup_defs)
  have val: "reached ?h (V (JRef 0)) (split_dot ''text'') = V (JStr ''a'')"
    by (simp add: reached_def lookup_defs)
  from extractField_table_order [of ?vd "''content''" "[''content'']" "''text''"
      "[''message'', ''response'', ''result'']" ?h "V (JRef 0)"] keys before here
  have "extractField ?vd ?h (V (JRef 0)) ''content''
      = Returns (reached ?h (V (JRef 0)) (split_dot ''text''))"
    by blast
  with keys before here val show ?thesis by simp
qed

text \<open>
  C10. The guard does protect the traversal: once the candidate list is read,
  \<open>extractField\<close> returns for every response (\<open>extractField_returns\<close>). The read of the
  candidate list itself goes through the prototype of the table: for the field name
  \<open>constructor\<close> it yields the function \<open>Object\<close>, and the loop over it throws.
\<close>

theorem extractField_constructor_throws:
  "extractField \<lparr>fieldMappings = default_fieldMappings, defaultValues = []\<rparr>
     [ObjPlain []] (V (JRef 0)) ''constructor'' = Throws TypeError"
  by (simp add: extract_defs lookup_defs)

lemmas norm_defs =
  validateAndNormalize_def createFallbackResponse_def new_validator_def default_of_def
  push_issue_def optionalFields_def

lemmas handler_defs =
  handleApiResponse_def new_handler_def default_options_def requiredFields_of_def
  enableFallback_of_def issues_present_def catch_block_def

section \<open>Claims settled by running the code on an input\<close>

text \<open>
  C1. The empty array \<open>[]\<close> (address 0) is a non-null object, so it passes the guard of
  \<open>validateAndNormalize\<close> and is normalized like an object without matching keys: the
  result has the empty string as \<open>content\<close> and \<open>null\<close> as \<open>error\<close>, not the apology and
  the error text of the fallback record. This holds for a new handler (readings \<open>e0\<close>)
  and a call (readings \<open>e1\<close>) at any instants.
\<close>

theorem handleApiResponse_empty_array:
  "fst (handleApiResponse (fst (new_handler e0 [ObjArray []]))
          (snd (new_handler e0 [ObjArray []])) (V (JRef 0)) default_options e1)
   = Returns
       [(''_original'', V (JRef 0)),
        (''_validation'', V (JRef 2)),
        (''content'', V (JStr [])),
        (''id'', V (JStr (generateFallbackId e0))),
        (''timestamp'', V (JStr (iso_read e0 0))),
        (''model'', V (JStr ''unknown-model'')),
        (''usage'', V (JRef 1)),
        (''error'', V JNull)]"
  by (simp add: handler_defs norm_defs extract_defs path_defs lookup_defs)

text \<open>
  The other four inputs of the claim, and every value that is not a non-null object,
  do get the fallback record, and the call counts as one with issues.
\<close>

lemma issues_present_fallback:
  "issues_present (snd (createFallbackResponse e i h)) (fst (createFallbackResponse e i h))
   = Returns True"
  by (simp add: issues_present_def createFallbackResponse_def lookup_defs nth_append)

lemma handleApiResponse_not_object:
  assumes "\<not> truthy r \<or> typeof r \<noteq> ''object''"
  shows "handleApiResponse hdl h r opts e =
     (Returns (fst (createFallbackResponse e 0 h)),
      hdl\<lparr>errorCount := errorCount hdl + 1\<rparr>,
      snd (createFallbackResponse e 0 h))"
  using assms
  by (simp add: handleApiResponse_def validateAndNormalize_def issues_present_fallback)

lemma fallback_content_error:
  "local_get (fst (createFallbackResponse e i h)) ''content'' = V (JStr apology_text) \<and>
   local_get (fst (createFallbackResponse e i h)) ''error''
     = V (JStr ''API compatibility issue detected'')"
  by (simp add: createFallbackResponse_def local_get_def)

lemma handleApiResponse_four_invalid_inputs:
  "r \<in> {V JNull, V JUndefined, V (JStr []), V (JNum 123)} \<Longrightarrow>
   fst (handleApiResponse hdl h r opts e) = Returns (fst (createFallbackResponse e 0 h))"
  by (auto simp: handleApiResponse_not_object)

text \<open>
  C5. The \<open>id\<close> default is computed once, by the constructor (readings \<open>e0\<close>). Two
  normalizations on one validator, at any later instants (readings \<open>e1\<close> and \<open>e2\<close>), of
  the response \<open>{ content: "hello" }\<close>, which has no id, both receive the identifier
  that was generated when the validator was built.
\<close>

theorem validateAndNormalize_same_default_id:
  "fst (validateAndNormalize
          (fst (new_validator e0 [ObjPlain [(''content'', JStr ''hello'')]]))
          (snd (new_validator e0 [ObjPlain [(''content'', JStr ''hello'')]]))
          (V (JRef 0)) [''content''] e1)
   = Returns
       [(''_original'', V (JRef 0)),
        (''_validation'', V (JRef 2)),
        (''content'', V (JStr ''hello'')),
        (''id'', V (JStr (generateFallbackId e0))),
        (''timestamp'', V (JStr (iso_read e0 0))),
        (''model'', V (JStr ''unknown-model'')),
        (''usage'', V (JRef 1)),
        (''error'', V JNull)] \<and>
   fst (validateAndNormalize
          (fst (new_validator e0 [ObjPlain [(''content'', JStr ''hello'')]]))
          (snd (validateAndNormalize
                  (fst (new_validator e0 [ObjPlain [(''content'', JStr ''hello'')]]))
                  (snd (new_validator e0 [ObjPlain [(''content'', JStr ''hello'')]]))
                  (V (JRef 0)) [''content''] e1))
          (V (JRef 0)) [''content''] e2)
   = Returns
       [(''_original'', V (JRef 0)),
        (''_validation'', V (JRef 4)),
        (''content'', V (JStr ''hello'')),
        (''id'', V (JStr (generateFallbackId e0))),
        (''timestamp'', V (JStr (iso_read e0 0))),
        (''model'', V (JStr ''unknown-model'')),
        (''usage'', V (JRef 1)),
        (''error'', V JNull)]"
  by (simp add: norm_defs extract_defs path_defs lookup_defs)

theorem validateAndNormalize_same_default_id_witness:
  "result_field
     (fst (validateAndNormalize
          (fst (new_validator clock_a [ObjPlain [(''content'', JStr ''hello'')]]))
          (snd (new_validator clock_a [ObjPlain [(''content'', JStr ''hello'')]]))
          (V (JRef 0)) [''content''] clock_b)) ''id''
   = V (JStr (generateFallbackId clock_a)) \<and>
   result_field
     (fst (validateAndNormalize
          (fst (new_validator clock_a [ObjPlain [(''content'', JStr ''hello'')]]))
          (snd (validateAndNormalize
                  (fst (new_validator clock_a [ObjPlain [(''content'', JStr ''hello'')]]))
                  (snd (new_validator clock_a [ObjPlain [(''content'', JStr ''hello'')]]))
                  (V (JRef 0)) [''content''] clock_b))
          (V (JRef 0)) [''content''] clock_c)) ''id''
   = V (JStr (generateFallbackId clock_a))"
  using validateAndNormalize_same_default_id [of clock_a clock_b clock_c]
  by (simp add: local_get_def)

text \<open>Identifiers generated at the instants of the two calls would have differed.\<close>

lemma fresh_ids_differ:
  "generateFallbackId clock_b = ''fallback-1700000360000-k9x2m4q7w'' \<and>
   generateFallbackId clock_c = ''fallback-1700000720000-z3r8t5y1u'' \<and>
   generateFallbackId clock_a = ''fallback-1700000000000-4fzyo82mv''"
  by (simp add: generateFallbackId_def clock_a_def clock_b_def clock_c_def show_nat.simps)

text \<open>
  C9. A required field named \<open>_validation\<close> replaces the bookkeeping record of the
  result by the object found in the response; the next missing field is then reported
  by a \<open>push\<close> onto the \<open>issues\<close> array of that object. For the response
  \<open>{ _validation: { issues: [] } }\<close> (addresses 2, 1 and 0) the array of the raw input is
  empty before the call and holds a message after it.
\<close>

theorem validateAndNormalize_mutates_input:
  "obj_at (snd (new_validator e0
            [ObjArray [], ObjPlain [(''issues'', JRef 0)], ObjPlain [(''_validation'', JRef 1)]]))
     0 = ObjArray [] \<and>
   fst (validateAndNormalize
     (fst (new_validator e0
            [ObjArray [], ObjPlain [(''issues'', JRef 0)], ObjPlain [(''_validation'', JRef 1)]]))
     (snd (new_validator e0
            [ObjArray [], ObjPlain [(''issues'', JRef 0)], ObjPlain [(''_validation'', JRef 1)]]))
     (V (JRef 2)) [''_validation'', ''content''] e1)
   = Returns
       [(''_original'', V (JRef 2)),
        (''_validation'', V (JRef 1)),
        (''content'', V (JStr [])),
        (''id'', V (JStr (generateFallbackId e0))),
        (''timestamp'', V (JStr (iso_read e0 0))),
        (''model'', V (JStr ''unknown-model'')),
        (''usage'', V (JRef 3)),
        (''error'', V JNull)] \<and>
   obj_at (snd (validateAndNormalize
     (fst (new_validator e0
            [ObjArray [], ObjPlain [(''issues'', JRef 0)], ObjPlain [(''_validation'', JRef 1)]]))
     (snd (new_validator e0
            [ObjArray [], ObjPlain [(''issues'', JRef 0)], ObjPlain [(''_validation'', JRef 1)]]))
     (V (JRef 2)) [''_validation'', ''content''] e1))
     0 = ObjArray [JStr ''Missing field: content'']"
  by (simp add: norm_defs extract_defs path_defs lookup_defs)

theorem validateAndNormalize_mutates_input_witness:
  "obj_at (snd (validateAndNormalize
     (fst (new_validator clock_a
            [ObjArray [], ObjPlain [(''issues'', JRef 0)], ObjPlain [(''_validation'', JRef 1)]]))
     (snd (new_validator clock_a
            [ObjArray [], ObjPlain [(''issues'', JRef 0)], ObjPlain [(''_validation'', JRef 1)]]))
     (V (JRef 2)) [''_validation'', ''content''] clock_b)) 0
   \<noteq> obj_at (snd (new_validator clock_a
            [ObjArray [], ObjPlain [(''issues'', JRef 0)], ObjPlain [(''_validation'', JRef 1)]]))
       0"
  using validateAndNormalize_mutates_input [of clock_a clock_b] by simp

section \<open>The bookkeeping record during normalization\<close>

text \<open>
  While the required fields do not name \<open>_validation\<close>, the result refers to the
  bookkeeping record allocated by the call (address \<open>n\<close>), whose \<open>issues\<close> array (address
  \<open>n + 1\<close>) is the only object that changes.
\<close>

lemma push_issue_bookkeeping:
  assumes "map_of nr ''_validation'' = Some (V (JRef n))"
    and "length h = n + 2"
    and "h ! n = ObjPlain [(''timestamp'', JStr ts), (''issues'', JRef (Suc n))]"
    and "h ! Suc n = ObjArray xs"
  shows "push_issue h nr msg = Returns (h[Suc n := ObjArray (xs @ [JStr msg])])"
  using assms by (simp add: push_issue_def local_get_def obj_at_def)

lemma map_of_update_other:
  "k \<noteq> k' \<Longrightarrow> map_of (AList.update k v al) k' = map_of al k'"
  by (simp add: update_conv')

lemma required_loop_bookkeeping:
  assumes "''_validation'' \<notin> set fs"
    and "map_of nr ''_validation'' = Some (V (JRef n))"
    and "length h = n + 2"
    and "h ! n = ObjPlain [(''timestamp'', JStr ts), (''issues'', JRef (Suc n))]"
    and "h ! Suc n = ObjArray xs"
  shows "\<exists>ys. length (snd (required_loop vd h response fs nr)) = n + 2 \<and>
           take n (snd (required_loop vd h response fs nr)) = take n h \<and>
           snd (required_loop vd h response fs nr) ! n = h ! n \<and>
           snd (required_loop vd h response fs nr) ! Suc n = ObjArray ys \<and>
           (\<forall>nr'. fst (required_loop vd h response fs nr) = Returns nr' \<longrightarrow>
              map_of nr' ''_validation'' = Some (V (JRef n)) \<and>
              (''_original'' \<notin> set fs \<longrightarrow> map_of nr' ''_original'' = map_of nr ''_original''))"
  using assms
proof (induction fs arbitrary: nr h xs)
  case Nil
  then show ?case by simp
next
  case (Cons f fs)
  from Cons.prems have f: "f \<noteq> ''_validation''" and fs: "''_validation'' \<notin> set fs"
    by auto
  show ?case
  proof (cases "extractField vd h response f")
    case (Returns v)
    show ?thesis
    proof (cases "v = V JNull")
      case False
      have m: "map_of (AList.update f v nr) ''_validation'' = Some (V (JRef n))"
        using f Cons.prems(2) by (simp add: map_of_update_other)
      from Cons.IH [OF fs m Cons.prems(3) Cons.prems(4) Cons.prems(5), of]
      show ?thesis using Returns False
        by (auto simp: map_of_update_other)
    next
      case True
      let ?nr = "AList.update f (default_of vd f) nr"
      let ?h = "h[Suc n := ObjArray (xs @ [JStr (''Missing field: '' @ f)])]"
      have m: "map_of ?nr ''_validation'' = Some (V (JRef n))"
        using f Cons.prems(2) by (simp add: map_of_update_other)
      have p: "push_issue h ?nr (''Missing field: '' @ f) = Returns ?h"
        by (rule push_issue_bookkeeping [OF m Cons.prems(3) Cons.prems(4) Cons.prems(5)])
      have l: "length ?h = n + 2" using Cons.prems(3) by simp
      have a: "?h ! n = ObjPlain [(''timestamp'', JStr ts), (''issues'', JRef (Suc n))]"
        using Cons.prems(4) by simp
      have b: "?h ! Suc n = ObjArray (xs @ [JStr (''Missing field: '' @ f)])"
        using Cons.prems(3) by simp
      from Cons.IH [OF fs m l a b]
      show ?thesis using Returns True p Cons.prems(4)
        by (auto simp: map_of_update_other)
    qed
  next
    case (Throws e)
    then show ?thesis using Cons.prems by simp
  next
    case Unmodelled
    then show ?thesis using Cons.prems by simp
  qed
qed

lemma optional_loop_keeps:
  assumes "k \<notin> set fs"
    and "optional_loop vd h response fs nr = Returns nr'"
  shows "map_of nr' k = map_of nr k"
  using assms
proof (induction fs arbitrary: nr)
  case Nil
  then show ?case by simp
next
  case (Cons f fs)
  then show ?case
    by (auto simp: map_of_update_other split: if_splits outcome.splits)
qed

section \<open>Reading a closed store that has grown\<close>

text \<open>
  Objects allocated later are not reachable from a value of a closed store, so reads
  that start at such a value see the old store.
\<close>

lemma obj_at_prefix:
  "take (length h0) h = h0 \<Longrightarrow> a < length h0 \<Longrightarrow> obj_at h a = obj_at h0 a"
proof -
  assume t: "take (length h0) h = h0" and a: "a < length h0"
  from t have "length h0 \<le> length h"
    by (metis length_take min.cobounded1)
  moreover from t a have "h ! a = h0 ! a"
    by (metis nth_take)
  ultimately show ?thesis using a by (simp add: obj_at_def)
qed

lemma own_value_closed:
  assumes "heap_closed h0" and "a < length h0"
    and "own_value (obj_at h0 a) k = Some v"
  shows "ref_below (length h0) v"
proof -
  from assms(1,2) have c: "obj_closed (length h0) (obj_at h0 a)"
    by (simp add: heap_closed_def obj_at_def list_all_length)
  show ?thesis
  proof (cases "obj_at h0 a")
    case (ObjPlain ps)
    with assms(3) have "(k, v) \<in> set ps" by (auto dest: map_of_SomeD)
    with c ObjPlain show ?thesis by (auto simp: list_all_iff)
  next
    case (ObjArray xs)
    with assms(3) c show ?thesis
      by (auto simp: list_all_length split: option.splits if_splits)
  qed
qed

lemma proto_get_below:
  "val_below n recv \<Longrightarrow> val_below n (proto_get p recv k)"
  by (simp add: proto_get_def)

lemma js_get_below:
  assumes "heap_closed h0" and "val_below (length h0) c"
  shows "val_below (length h0) (js_get h0 c k)"
proof (cases "(h0, c, k)" rule: js_get.cases)
  case (1 h a k')
  with assms show ?thesis
    by (auto simp: proto_get_below split: option.splits dest: own_value_closed)
next
  case (2 h p k')
  then show ?thesis by (cases p) (simp_all add: proto_get_below)
qed simp_all

lemma js_in_prefix:
  "take (length h0) h = h0 \<Longrightarrow> val_below (length h0) c \<Longrightarrow> js_in h k c = js_in h0 k c"
  by (cases "(h, k, c)" rule: js_in.cases) (simp_all add: obj_at_prefix)

lemma js_get_prefix:
  "take (length h0) h = h0 \<Longrightarrow> val_below (length h0) c \<Longrightarrow> js_get h c k = js_get h0 c k"
  by (cases "(h, c, k)" rule: js_get.cases) (auto simp: obj_at_prefix split: option.splits)

lemma member_prefix:
  "take (length h0) h = h0 \<Longrightarrow> val_below (length h0) c \<Longrightarrow> member h c k = member h0 c k"
  by (cases "(h, c, k)" rule: member.cases) (auto simp: obj_at_prefix split: option.splits)

lemma has_loop_prefix:
  assumes "heap_closed h0" and "take (length h0) h = h0"
  shows "val_below (length h0) c \<Longrightarrow> has_loop h c ks = has_loop h0 c ks"
proof (induction ks arbitrary: c)
  case Nil
  show ?case by simp
next
  case (Cons k ks)
  have "val_below (length h0) (js_get h0 c k)"
    using assms(1) Cons.prems by (rule js_get_below)
  with Cons show ?case
    using assms(2) by (simp add: js_in_prefix js_get_prefix)
qed

lemma get_loop_prefix:
  assumes "heap_closed h0" and "take (length h0) h = h0"
  shows "val_below (length h0) c \<Longrightarrow> get_loop h c ks = get_loop h0 c ks"
proof (induction ks arbitrary: c)
  case Nil
  show ?case by simp
next
  case (Cons k ks)
  have m: "member h c k = member h0 c k"
    using assms(2) Cons.prems by (rule member_prefix)
  show ?case
  proof (cases "member h0 c k")
    case (Returns v)
    then have "v = js_get h0 c k"
      by (cases "(h0, c, k)" rule: member.cases) auto
    then have "val_below (length h0) v"
      using assms(1) Cons.prems by (simp add: js_get_below)
    with Cons.IH Returns m show ?thesis by simp
  qed (simp_all add: m)
qed

lemma extractField_prefix:
  assumes "heap_closed h0" and "take (length h0) h = h0" and "val_below (length h0) response"
  shows "extractField vd h response f = extractField vd h0 response f"
proof -
  have "extract_loop h response ks = extract_loop h0 response ks" for ks
    by (induction ks)
       (simp_all add: path_defs has_loop_prefix [OF assms] get_loop_prefix [OF assms])
  then show ?thesis by (simp add: extractField_def split: outcome.splits)
qed

text \<open>
  With a closed store, the messages pushed by the loop over the required fields are
  those of the fields whose extraction from the raw response yields \<open>null\<close>, in order.
\<close>

lemma required_loop_issues:
  assumes "heap_closed h0" and "val_below (length h0) response"
    and "''_validation'' \<notin> set fs"
    and "map_of nr ''_validation'' = Some (V (JRef (length h0)))"
    and "length h = length h0 + 2"
    and "take (length h0) h = h0"
    and "h ! length h0 = ObjPlain [(''timestamp'', JStr ts), (''issues'', JRef (Suc (length h0)))]"
    and "h ! Suc (length h0) = ObjArray xs"
    and "required_loop vd h response fs nr = (Returns nr', h')"
  shows "h' ! Suc (length h0) =
           ObjArray (xs @ map (\<lambda>f. JStr (''Missing field: '' @ f))
             (filter (\<lambda>f. extractField vd h0 response f = Returns (V JNull)) fs))"
  using assms(3-9)
proof (induction fs arbitrary: nr h xs)
  case Nil
  then show ?case by simp
next
  case (Cons f fs)
  from Cons.prems have f: "f \<noteq> ''_validation''" and fs: "''_validation'' \<notin> set fs"
    by auto
  have ex: "extractField vd h response f = extractField vd h0 response f"
    using assms(1) Cons.prems(4) assms(2) by (rule extractField_prefix)
  show ?case
  proof (cases "extractField vd h0 response f")
    case (Returns v)
    show ?thesis
    proof (cases "v = V JNull")
      case False
      have m: "map_of (AList.update f v nr) ''_validation'' = Some (V (JRef (length h0)))"
        using f Cons.prems(2) by (simp add: map_of_update_other)
      have r: "required_loop vd h response fs (AList.update f v nr) = (Returns nr', h')"
        using Cons.prems(7) ex Returns False by simp
      from Cons.IH [OF fs m Cons.prems(3) Cons.prems(4) Cons.prems(5) Cons.prems(6) r]
      show ?thesis using Returns False by simp
    next
      case True
      let ?nr = "AList.update f (default_of vd f) nr"
      let ?h = "h[Suc (length h0) := ObjArray (xs @ [JStr (''Missing field: '' @ f)])]"
      have m: "map_of ?nr ''_validation'' = Some (V (JRef (length h0)))"
        using f Cons.prems(2) by (simp add: map_of_update_other)
      have p: "push_issue h ?nr (''Missing field: '' @ f) = Returns ?h"
        by (rule push_issue_bookkeeping [OF m Cons.prems(3) Cons.prems(5) Cons.prems(6)])
      have l: "length ?h = length h0 + 2" using Cons.prems(3) by simp
      have t: "take (length h0) ?h = h0" using Cons.prems(4) by simp
      have a: "?h ! length h0 =
          ObjPlain [(''timestamp'', JStr ts), (''issues'', JRef (Suc (length h0)))]"
        using Cons.prems(5) by simp
      have b: "?h ! Suc (length h0) = ObjArray (xs @ [JStr (''Missing field: '' @ f)])"
        using Cons.prems(3) by simp
      have r: "required_loop vd ?h response fs ?nr = (Returns nr', h')"
        using Cons.prems(7) ex Returns True p by simp
      from Cons.IH [OF fs m l t a b r]
      show ?thesis using Returns True by simp
    qed
  next
    case (Throws e)
    with Cons.prems(7) ex show ?thesis by simp
  next
    case Unmodelled
    with Cons.prems(7) ex show ?thesis by simp
  qed
qed

section \<open>Claims about the normalized response\<close>

lemma validateAndNormalize_object:
  assumes "truthy response" and "typeof response = ''object''"
    and "validateAndNormalize vd h response fs e = (Returns nr, h')"
  obtains nr1 where
    "required_loop vd
       (h @ [ObjPlain [(''timestamp'', JStr (iso_read e 0)), (''issues'', JRef (length h + 1))],
             ObjArray []])
       response fs [(''_original'', response), (''_validation'', V (JRef (length h)))]
     = (Returns nr1, h')"
    and "optional_loop vd h' response optionalFields nr1 = Returns nr"
  using assms
  by (auto simp: validateAndNormalize_def split: prod.splits outcome.splits)

text \<open>
  Without \<open>_validation\<close> among the required fields, a call leaves every object that
  existed before it as it was, whatever the outcome.
\<close>

lemma validateAndNormalize_frame:
  assumes "''_validation'' \<notin> set fs"
  shows "take (length h) (snd (validateAndNormalize vd h response fs e)) = h"
proof (cases "truthy response \<and> typeof response = ''object''")
  case False
  then show ?thesis
    by (auto simp: validateAndNormalize_def createFallbackResponse_def)
next
  case True
  let ?hs = "h @ [ObjPlain [(''timestamp'', JStr (iso_read e 0)),
                            (''issues'', JRef (length h + 1))], ObjArray []]"
  let ?nr = "[(''_original'', response), (''_validation'', V (JRef (length h)))]"
  have "\<exists>ys. length (snd (required_loop vd ?hs response fs ?nr)) = length h + 2 \<and>
      take (length h) (snd (required_loop vd ?hs response fs ?nr)) = take (length h) ?hs \<and>
      snd (required_loop vd ?hs response fs ?nr) ! length h = ?hs ! length h \<and>
      snd (required_loop vd ?hs response fs ?nr) ! Suc (length h) = ObjArray ys \<and>
      (\<forall>nr'. fst (required_loop vd ?hs response fs ?nr) = Returns nr' \<longrightarrow>
         map_of nr' ''_validation'' = Some (V (JRef (length h))) \<and>
         (''_original'' \<notin> set fs \<longrightarrow> map_of nr' ''_original'' = map_of ?nr ''_original''))"
    by (rule required_loop_bookkeeping [OF assms, where xs = "[]"]) (simp_all add: nth_append)
  then have "take (length h) (snd (required_loop vd ?hs response fs ?nr)) = h"
    by auto
  with True show ?thesis
    by (auto simp: validateAndNormalize_def split: prod.splits outcome.splits)
qed

text \<open>
  C3, as the code has it. For a non-null object input in a closed store and required
  fields other than \<open>_validation\<close>, the issues of the result are the messages of the
  required fields whose extraction yields \<open>null\<close>, in order; so the list is non-empty
  exactly when a required field received its default. The optional fields never add an
  issue.
\<close>

theorem validateAndNormalize_issues_iff:
  assumes "heap_closed h" and "val_below (length h) response"
    and "truthy response" and "typeof response = ''object''"
    and "''_validation'' \<notin> set requiredFields"
    and "validateAndNormalize vd h response requiredFields e = (Returns nr, h')"
  shows "issues_of h' nr =
           Some (map (\<lambda>f. JStr (''Missing field: '' @ f))
             (filter (\<lambda>f. extractField vd h response f = Returns (V JNull)) requiredFields)) \<and>
         ((\<exists>xs. issues_of h' nr = Some xs \<and> length xs > 0) \<longleftrightarrow>
          (\<exists>f \<in> set requiredFields. extractField vd h response f = Returns (V JNull)))"
proof -
  let ?n = "length h"
  let ?hs = "h @ [ObjPlain [(''timestamp'', JStr (iso_read e 0)), (''issues'', JRef (?n + 1))],
                  ObjArray []]"
  let ?nr0 = "[(''_original'', response), (''_validation'', V (JRef ?n))]"
  let ?msgs = "map (\<lambda>f. JStr (''Missing field: '' @ f))
     (filter (\<lambda>f. extractField vd h response f = Returns (V JNull)) requiredFields)"
  from assms(3,4,6) obtain nr1 where
    req: "required_loop vd ?hs response requiredFields ?nr0 = (Returns nr1, h')"
    and opt: "optional_loop vd h' response optionalFields nr1 = Returns nr"
    by (rule validateAndNormalize_object)
  have m0: "map_of ?nr0 ''_validation'' = Some (V (JRef ?n))" by simp
  have l0: "length ?hs = ?n + 2" by simp
  have a0: "?hs ! ?n = ObjPlain [(''timestamp'', JStr (iso_read e 0)), (''issues'', JRef (Suc ?n))]"
    by (simp add: nth_append)
  have b0: "?hs ! Suc ?n = ObjArray []" by (simp add: nth_append)
  have t0: "take ?n ?hs = h" by simp
  from required_loop_bookkeeping [OF assms(5) m0 l0 a0 b0, of vd response] req
  have len: "length h' = ?n + 2"
    and rec: "h' ! ?n = ObjPlain [(''timestamp'', JStr (iso_read e 0)), (''issues'', JRef (Suc ?n))]"
    and m1: "map_of nr1 ''_validation'' = Some (V (JRef ?n))"
    by (auto simp: nth_append)
  from required_loop_issues [OF assms(1,2,5) m0 l0 t0 a0 b0 req]
  have arr: "h' ! Suc ?n = ObjArray ?msgs" by simp
  have "''_validation'' \<notin> set optionalFields" by (simp add: optionalFields_def)
  from optional_loop_keeps [OF this opt] m1
  have m: "map_of nr ''_validation'' = Some (V (JRef ?n))" by simp
  have iss: "issues_of h' nr = Some ?msgs"
    using m len rec arr by (simp add: issues_of_def local_get_def obj_at_def)
  have "(?msgs \<noteq> []) \<longleftrightarrow>
      (\<exists>f \<in> set requiredFields. extractField vd h response f = Returns (V JNull))"
    by (auto simp: filter_empty_conv)
  with iss show ?thesis by auto
qed

text \<open>
  C4, as the code has it. On the normal path, with required fields that name neither
  \<open>_original\<close> nor \<open>_validation\<close>, the result holds the raw input under \<open>_original\<close>, the
  objects of the store are as they were before the call, and the \<open>timestamp\<close> of the
  \<open>_validation\<close> record is the clock reading of this call. The record of the guard path
  has a \<open>_validation\<close> record with the reading of that call, and no \<open>_original\<close>.
\<close>

theorem validateAndNormalize_original_timestamp:
  assumes "validateAndNormalize vd h response requiredFields e = (Returns nr, h')"
  shows "(truthy response \<and> typeof response = ''object'' \<and>
          ''_original'' \<notin> set requiredFields \<and> ''_validation'' \<notin> set requiredFields \<longrightarrow>
            local_get nr ''_original'' = response \<and> take (length h) h' = h \<and>
            local_get nr ''_validation'' = V (JRef (length h)) \<and>
            member h' (local_get nr ''_validation'') ''timestamp''
              = Returns (V (JStr (iso_read e 0)))) \<and>
         (\<not> (truthy response \<and> typeof response = ''object'') \<longrightarrow>
            map_of nr ''_original'' = None \<and> local_get nr ''_original'' = V JUndefined \<and>
            take (length h) h' = h \<and>
            member h' (local_get nr ''_validation'') ''timestamp''
              = Returns (V (JStr (iso_read e 1))))"
proof (intro conjI impI)
  assume g: "\<not> (truthy response \<and> typeof response = ''object'')"
  with assms have nr: "nr = fst (createFallbackResponse e 0 h)"
    and h': "h' = snd (createFallbackResponse e 0 h)"
    by (auto simp: validateAndNormalize_def)
  show "map_of nr ''_original'' = None"
    by (simp add: nr createFallbackResponse_def)
  show "local_get nr ''_original'' = V JUndefined"
    by (simp add: nr createFallbackResponse_def lookup_defs)
  show "take (length h) h' = h"
    by (simp add: h' createFallbackResponse_def)
  show "member h' (local_get nr ''_validation'') ''timestamp'' = Returns (V (JStr (iso_read e 1)))"
    by (simp add: nr h' createFallbackResponse_def local_get_def obj_at_def nth_append)
next
  assume a: "truthy response \<and> typeof response = ''object'' \<and>
      ''_original'' \<notin> set requiredFields \<and> ''_validation'' \<notin> set requiredFields"
  let ?n = "length h"
  let ?hs = "h @ [ObjPlain [(''timestamp'', JStr (iso_read e 0)), (''issues'', JRef (?n + 1))],
                  ObjArray []]"
  let ?nr0 = "[(''_original'', response), (''_validation'', V (JRef ?n))]"
  from a assms obtain nr1 where
    req: "required_loop vd ?hs response requiredFields ?nr0 = (Returns nr1, h')"
    and opt: "optional_loop vd h' response optionalFields nr1 = Returns nr"
    by (auto elim: validateAndNormalize_object)
  from a have nv: "''_validation'' \<notin> set requiredFields"
    and no: "''_original'' \<notin> set requiredFields" by auto
  have m0: "map_of ?nr0 ''_validation'' = Some (V (JRef ?n))" by simp
  have l0: "length ?hs = ?n + 2" by simp
  have a0: "?hs ! ?n = ObjPlain [(''timestamp'', JStr (iso_read e 0)), (''issues'', JRef (Suc ?n))]"
    by (simp add: nth_append)
  have b0: "?hs ! Suc ?n = ObjArray []" by (simp add: nth_append)
  from required_loop_bookkeeping [OF nv m0 l0 a0 b0, of vd response] req no
  have len: "length h' = ?n + 2"
    and fr: "take ?n h' = h"
    and rec: "h' ! ?n = ObjPlain [(''timestamp'', JStr (iso_read e 0)), (''issues'', JRef (Suc ?n))]"
    and m1: "map_of nr1 ''_validation'' = Some (V (JRef ?n))"
    and o1: "map_of nr1 ''_original'' = Some response"
    by (auto simp: nth_append)
  have "''_validation'' \<notin> set optionalFields" and "''_original'' \<notin> set optionalFields"
    by (simp_all add: optionalFields_def)
  from optional_loop_keeps [OF this(1) opt] optional_loop_keeps [OF this(2) opt] m1 o1
  have m: "map_of nr ''_validation'' = Some (V (JRef ?n))"
    and o: "map_of nr ''_original'' = Some response" by simp_all
  show "local_get nr ''_original'' = response" using o by (simp add: local_get_def)
  show "take (length h) h' = h" by (rule fr)
  show "local_get nr ''_validation'' = V (JRef (length h))" using m by (simp add: local_get_def)
  show "member h' (local_get nr ''_validation'') ''timestamp'' = Returns (V (JStr (iso_read e 0)))"
    using m len rec by (simp add: local_get_def obj_at_def)
qed

lemmas example_defs = example_validator_def store_empty_object_def store_content_only_def

theorem validateAndNormalize_issues_iff_witness:
  "heap_closed store_empty_object \<and> val_below (length store_empty_object) (V (JRef 1)) \<and>
   truthy (V (JRef 1)) \<and> typeof (V (JRef 1)) = ''object'' \<and>
   ''_validation'' \<notin> set [''content''] \<and>
   validateAndNormalize example_validator store_empty_object (V (JRef 1)) [''content''] clock_b
     = (Returns
          [(''_original'', V (JRef 1)),
           (''_validation'', V (JRef 2)),
           (''content'', V (JStr [])),
           (''id'', V (JStr (generateFallbackId clock_a))),
           (''timestamp'', V (JStr (iso_read clock_a 0))),
           (''model'', V (JStr ''unknown-model'')),
           (''usage'', V (JRef 0)),
           (''error'', V JNull)],
        [ObjPlain [(''total_tokens'', JNum 0)],
         ObjPlain [],
         ObjPlain [(''timestamp'', JStr (iso_read clock_b 0)), (''issues'', JRef 3)],
         ObjArray [JStr ''Missing field: content'']]) \<and>
   extractField example_validator store_empty_object (V (JRef 1)) ''content''
     = Returns (V JNull) \<and>
   issues_of
     [ObjPlain [(''total_tokens'', JNum 0)],
      ObjPlain [],
      ObjPlain [(''timestamp'', JStr (iso_read clock_b 0)), (''issues'', JRef 3)],
      ObjArray [JStr ''Missing field: content'']]
     [(''_original'', V (JRef 1)),
      (''_validation'', V (JRef 2)),
      (''content'', V (JStr [])),
      (''id'', V (JStr (generateFallbackId clock_a))),
      (''timestamp'', V (JStr (iso_read clock_a 0))),
      (''model'', V (JStr ''unknown-model'')),
      (''usage'', V (JRef 0)),
      (''error'', V JNull)]
     = Some [JStr ''Missing field: content'']"
proof -
  let ?nr = "[(''_original'', V (JRef 1)),
      (''_validation'', V (JRef 2)),
      (''content'', V (JStr [])),
      (''id'', V (JStr (generateFallbackId clock_a))),
      (''timestamp'', V (JStr (iso_read clock_a 0))),
      (''model'', V (JStr ''unknown-model'')),
      (''usage'', V (JRef 0)),
      (''error'', V JNull)]"
  let ?h' = "[ObjPlain [(''total_tokens'', JNum 0)],
      ObjPlain [],
      ObjPlain [(''timestamp'', JStr (iso_read clock_b 0)), (''issues'', JRef 3)],
      ObjArray [JStr ''Missing field: content'']]"
  have c: "heap_closed store_empty_object"
    by (simp add: heap_closed_def example_defs new_validator_def)
  have b: "val_below (length store_empty_object) (V (JRef 1))"
    by (simp add: example_defs new_validator_def)
  have t: "truthy (V (JRef 1))" and ty: "typeof (V (JRef 1)) = ''object''" by simp_all
  have nv: "''_validation'' \<notin> set [''content'']" by simp
  have run: "validateAndNormalize example_validator store_empty_object (V (JRef 1))
      [''content''] clock_b = (Returns ?nr, ?h')"
    by (simp add: example_defs norm_defs extract_defs path_defs lookup_defs)
  have ex: "extractField example_validator store_empty_object (V (JRef 1)) ''content''
      = Returns (V JNull)"
    by (simp add: example_defs new_validator_def extract_defs path_defs lookup_defs)
  from validateAndNormalize_issues_iff [OF c b t ty nv run] ex
  have "issues_of ?h' ?nr = Some [JStr ''Missing field: content'']" by simp
  with c b t ty nv run ex show ?thesis by blast
qed

text \<open>
  C3 as stated fails: for \<open>{ content: "hello" }\<close> the optional field \<open>id\<close> is not found
  and receives its default, and the issues list of the result is empty.
\<close>

theorem validateAndNormalize_silent_default_counterexample:
  "fst (validateAndNormalize example_validator store_content_only (V (JRef 1))
          [''content''] clock_b)
     = Returns
         [(''_original'', V (JRef 1)),
          (''_validation'', V (JRef 2)),
          (''content'', V (JStr ''hello'')),
          (''id'', V (JStr (generateFallbackId clock_a))),
          (''timestamp'', V (JStr (iso_read clock_a 0))),
          (''model'', V (JStr ''unknown-model'')),
          (''usage'', V (JRef 0)),
          (''error'', V JNull)] \<and>
   extractField example_validator store_content_only (V (JRef 1)) ''id'' = Returns (V JNull) \<and>
   default_of example_validator ''id'' = V (JStr (generateFallbackId clock_a)) \<and>
   issues_of
     (snd (validateAndNormalize example_validator store_content_only (V (JRef 1))
             [''content''] clock_b))
     [(''_original'', V (JRef 1)),
      (''_validation'', V (JRef 2)),
      (''content'', V (JStr ''hello'')),
      (''id'', V (JStr (generateFallbackId clock_a))),
      (''timestamp'', V (JStr (iso_read clock_a 0))),
      (''model'', V (JStr ''unknown-model'')),
      (''usage'', V (JRef 0)),
      (''error'', V JNull)]
     = Some []"
  by (simp add: example_defs issues_of_def norm_defs extract_defs path_defs lookup_defs)

theorem validateAndNormalize_original_timestamp_witness:
  "validateAndNormalize example_validator store_content_only (V (JRef 1)) [''content''] clock_b
     = (Returns
          [(''_original'', V (JRef 1)),
           (''_validation'', V (JRef 2)),
           (''content'', V (JStr ''hello'')),
           (''id'', V (JStr (generateFallbackId clock_a))),
           (''timestamp'', V (JStr (iso_read clock_a 0))),
           (''model'', V (JStr ''unknown-model'')),
           (''usage'', V (JRef 0)),
           (''error'', V JNull)],
        [ObjPlain [(''total_tokens'', JNum 0)],
         ObjPlain [(''content'', JStr ''hello'')],
         ObjPlain [(''timestamp'', JStr (iso_read clock_b 0)), (''issues'', JRef 3)],
         ObjArray []]) \<and>
   truthy (V (JRef 1)) \<and> typeof (V (JRef 1)) = ''object'' \<and>
   ''_original'' \<notin> set [''content''] \<and> ''_validation'' \<notin> set [''content''] \<and>
   member
     [ObjPlain [(''total_tokens'', JNum 0)],
      ObjPlain [(''content'', JStr ''hello'')],
      ObjPlain [(''timestamp'', JStr (iso_read clock_b 0)), (''issues'', JRef 3)],
      ObjArray []]
     (V (JRef 2)) ''timestamp'' = Returns (V (JStr (iso_read clock_b 0))) \<and>
   validateAndNormalize example_validator store_content_only (V JNull) [''content''] clock_b
     = (Returns (fst (createFallbackResponse clock_b 0 store_content_only)),
        snd (createFallbackResponse clock_b 0 store_content_only)) \<and>
   \<not> (truthy (V JNull) \<and> typeof (V JNull) = ''object'') \<and>
   map_of (fst (createFallbackResponse clock_b 0 store_content_only)) ''_original'' = None \<and>
   member (snd (createFallbackResponse clock_b 0 store_content_only))
     (local_get (fst (createFallbackResponse clock_b 0 store_content_only)) ''_validation'')
     ''timestamp'' = Returns (V (JStr (iso_read clock_b 1)))"
proof -
  let ?nr = "[(''_original'', V (JRef 1)),
      (''_validation'', V (JRef 2)),
      (''content'', V (JStr ''hello'')),
      (''id'', V (JStr (generateFallbackId clock_a))),
      (''timestamp'', V (JStr (iso_read clock_a 0))),
      (''model'', V (JStr ''unknown-model'')),
      (''usage'', V (JRef 0)),
      (''error'', V JNull)]"
  let ?h' = "[ObjPlain [(''total_tokens'', JNum 0)],
      ObjPlain [(''content'', JStr ''hello'')],
      ObjPlain [(''timestamp'', JStr (iso_read clock_b 0)), (''issues'', JRef 3)],
      ObjArray []]"
  have run: "validateAndNormalize example_validator store_content_only (V (JRef 1))
      [''content''] clock_b = (Returns ?nr, ?h')"
    by (simp add: example_defs norm_defs extract_defs path_defs lookup_defs)
  have obj: "truthy (V (JRef 1)) \<and> typeof (V (JRef 1)) = ''object'' \<and>
      ''_original'' \<notin> set [''content''] \<and> ''_validation'' \<notin> set [''content'']"
    by simp
  have v: "local_get ?nr ''_validation'' = V (JRef 2)" by (simp add: local_get_def)
  from validateAndNormalize_original_timestamp [OF run] obj
  have "member ?h' (local_get ?nr ''_validation'') ''timestamp''
      = Returns (V (JStr (iso_read clock_b 0)))"
    by blast
  then have ts: "member ?h' (V (JRef 2)) ''timestamp'' = Returns (V (JStr (iso_read clock_b 0)))"
    using v by simp
  have run2: "validateAndNormalize example_validator store_content_only (V JNull)
      [''content''] clock_b
      = (Returns (fst (createFallbackResponse clock_b 0 store_content_only)),
         snd (createFallbackResponse clock_b 0 store_content_only))"
    by (simp add: validateAndNormalize_def)
  have nobj: "\<not> (truthy (V JNull) \<and> typeof (V JNull) = ''object'')" by simp
  from validateAndNormalize_original_timestamp [OF run2] nobj
  have "map_of (fst (createFallbackResponse clock_b 0 store_content_only)) ''_original'' = None"
    and "member (snd (createFallbackResponse clock_b 0 store_content_only))
      (local_get (fst (createFallbackResponse clock_b 0 store_content_only)) ''_validation'')
      ''timestamp'' = Returns (V (JStr (iso_read clock_b 1)))"
    by blast+
  with run obj ts run2 nobj show ?thesis by blast
qed

text \<open>
  C4 as stated fails: for the input \<open>null\<close> the guard path returns the fallback record,
  which has no \<open>_original\<close> property; reading it yields \<open>undefined\<close>, not the raw input.
\<close>

theorem validateAndNormalize_fallback_original_counterexample:
  "fst (validateAndNormalize example_validator store_content_only (V JNull) [''content'']
          clock_b)
     = Returns (fst (createFallbackResponse clock_b 0 store_content_only)) \<and>
   map_of (fst (createFallbackResponse clock_b 0 store_content_only)) ''_original'' = None \<and>
   local_get (fst (createFallbackResponse clock_b 0 store_content_only)) ''_original''
     = V JUndefined"
  by (simp add: validateAndNormalize_def createFallbackResponse_def lookup_defs)

section \<open>The error counter of the handler\<close>

text \<open>
  When the \<open>issues\<close> of a response are an array of the store, the handler's test
  \<open>issues.length > 0\<close> is the test that the array has an element.
\<close>

lemma issues_present_array:
  assumes "issues_of h nr = Some xs"
  shows "issues_present h nr = Returns (length xs > 0)"
proof -
  from assms obtain a b where
    v: "local_get nr ''_validation'' = V (JRef a)"
    and i: "own_value (obj_at h a) ''issues'' = Some (JRef b)"
    and x: "obj_at h b = ObjArray xs"
    by (auto simp: issues_of_def split: rtval.splits jsval.splits option.splits jsobj.splits)
  have "index_of_key ''length'' = None"
    by (simp add: index_of_key_def is_digit_def)
  with v i x show ?thesis
    by (simp add: issues_present_def)
qed

lemma handleApiResponse_maxErrors:
  "maxErrors (fst (snd (handleApiResponse hdl h r opts e))) = maxErrors hdl"
  by (auto simp: handleApiResponse_def catch_block_def
           split: prod.splits outcome.splits bool.splits)

text \<open>
  C8. A call whose normalization returns a response with at least one issue adds one
  to \<open>errorCount\<close>, and a call whose normalization returns a response without issues
  sets it to 0. The constructor sets the count to 0 and the threshold to 5, no call
  changes the threshold, and the report is \<open>critical\<close> exactly when the count exceeds
  it, \<open>normal\<close> otherwise. Three calls with the empty object \<open>{}\<close> on a new handler
  leave the count at 3, and a following call with \<open>{ content: "hello" }\<close> at 0.
\<close>

theorem handleApiResponse_errorCount:
  "(validateAndNormalize (validator hdl) h r (requiredFields_of opts) e = (Returns nr, h1) \<longrightarrow>
      issues_of h1 nr = Some xs \<longrightarrow>
        (length xs > 0 \<longrightarrow>
           handleApiResponse hdl h r opts e
             = (Returns nr, hdl\<lparr>errorCount := errorCount hdl + 1\<rparr>, h1)) \<and>
        (length xs = 0 \<longrightarrow>
           handleApiResponse hdl h r opts e = (Returns nr, hdl\<lparr>errorCount := 0\<rparr>, h1))) \<and>
   errorCount (fst (new_handler e0 h0)) = 0 \<and>
   maxErrors (fst (new_handler e0 h0)) = 5 \<and>
   maxErrors (fst (snd (handleApiResponse hdl h r opts e))) = maxErrors hdl \<and>
   (maxErrors hdl = 5 \<longrightarrow>
      (status (generateErrorReport hdl e) = ''critical'' \<longleftrightarrow> 5 < errorCount hdl) \<and>
      (status (generateErrorReport hdl e) = ''normal'' \<longleftrightarrow> errorCount hdl \<le> 5)) \<and>
   errorCount (fst (run_calls (fst (new_handler clock_a []))
       (snd (new_handler clock_a []) @ [ObjPlain [], ObjPlain [(''content'', JStr ''hello'')]])
       [(V (JRef 1), clock_b), (V (JRef 1), clock_c), (V (JRef 1), clock_a)])) = 3 \<and>
   errorCount (fst (run_calls (fst (new_handler clock_a []))
       (snd (new_handler clock_a []) @ [ObjPlain [], ObjPlain [(''content'', JStr ''hello'')]])
       [(V (JRef 1), clock_b), (V (JRef 1), clock_c), (V (JRef 1), clock_a),
        (V (JRef 2), clock_b)])) = 0"
proof (intro conjI impI)
  assume "validateAndNormalize (validator hdl) h r (requiredFields_of opts) e = (Returns nr, h1)"
    and "issues_of h1 nr = Some xs" and "length xs > 0"
  then show "handleApiResponse hdl h r opts e
      = (Returns nr, hdl\<lparr>errorCount := errorCount hdl + 1\<rparr>, h1)"
    by (simp add: handleApiResponse_def issues_present_array)
next
  assume "validateAndNormalize (validator hdl) h r (requiredFields_of opts) e = (Returns nr, h1)"
    and "issues_of h1 nr = Some xs" and "length xs = 0"
  then show "handleApiResponse hdl h r opts e = (Returns nr, hdl\<lparr>errorCount := 0\<rparr>, h1)"
    by (simp add: handleApiResponse_def issues_present_array)
next
  show "errorCount (fst (new_handler e0 h0)) = 0" by (simp add: new_handler_def)
  show "maxErrors (fst (new_handler e0 h0)) = 5" by (simp add: new_handler_def)
  show "maxErrors (fst (snd (handleApiResponse hdl h r opts e))) = maxErrors hdl"
    by (rule handleApiResponse_maxErrors)
next
  assume "maxErrors hdl = 5"
  then show "status (generateErrorReport hdl e) = ''critical'' \<longleftrightarrow> 5 < errorCount hdl"
    and "status (generateErrorReport hdl e) = ''normal'' \<longleftrightarrow> errorCount hdl \<le> 5"
    by (auto simp: generateErrorReport_def)
next
  show "errorCount (fst (run_calls (fst (new_handler clock_a []))
       (snd (new_handler clock_a []) @ [ObjPlain [], ObjPlain [(''content'', JStr ''hello'')]])
       [(V (JRef 1), clock_b), (V (JRef 1), clock_c), (V (JRef 1), clock_a)])) = 3"
    by (simp add: handler_defs norm_defs extract_defs path_defs lookup_defs)
next
  show "errorCount (fst (run_calls (fst (new_handler clock_a []))
       (snd (new_handler clock_a []) @ [ObjPlain [], ObjPlain [(''content'', JStr ''hello'')]])
       [(V (JRef 1), clock_b), (V (JRef 1), clock_c), (V (JRef 1), clock_a),
        (V (JRef 2), clock_b)])) = 0"
    by (simp add: handler_defs norm_defs extract_defs path_defs lookup_defs)
qed

theorem handleApiResponse_errorCount_witness:
  "validateAndNormalize (validator (fst (new_handler clock_a []))) store_empty_object
       (V (JRef 1)) (requiredFields_of default_options) clock_b
     = (Returns
          [(''_original'', V (JRef 1)),
           (''_validation'', V (JRef 2)),
           (''content'', V (JStr [])),
           (''id'', V (JStr (generateFallbackId clock_a))),
           (''timestamp'', V (JStr (iso_read clock_a 0))),
           (''model'', V (JStr ''unknown-model'')),
           (''usage'', V (JRef 0)),
           (''error'', V JNull)],
        [ObjPlain [(''total_tokens'', JNum 0)],
         ObjPlain [],
         ObjPlain [(''timestamp'', JStr (iso_read clock_b 0)), (''issues'', JRef 3)],
         ObjArray [JStr ''Missing field: content'']]) \<and>
   errorCount (fst (snd (handleApiResponse (fst (new_handler clock_a [])) store_empty_object
       (V (JRef 1)) default_options clock_b))) = 1 \<and>
   validateAndNormalize (validator ((fst (new_handler clock_a []))\<lparr>errorCount := 3\<rparr>))
       store_content_only (V (JRef 1)) (requiredFields_of default_options) clock_b
     = (Returns
          [(''_original'', V (JRef 1)),
           (''_validation'', V (JRef 2)),
           (''content'', V (JStr ''hello'')),
           (''id'', V (JStr (generateFallbackId clock_a))),
           (''timestamp'', V (JStr (iso_read clock_a 0))),
           (''model'', V (JStr ''unknown-model'')),
           (''usage'', V (JRef 0)),
           (''error'', V JNull)],
        [ObjPlain [(''total_tokens'', JNum 0)],
         ObjPlain [(''content'', JStr ''hello'')],
         ObjPlain [(''timestamp'', JStr (iso_read clock_b 0)), (''issues'', JRef 3)],
         ObjArray []]) \<and>
   errorCount (fst (snd (handleApiResponse ((fst (new_handler clock_a []))\<lparr>errorCount := 3\<rparr>)
       store_content_only (V (JRef 1)) default_options clock_b))) = 0 \<and>
   maxErrors ((fst (new_handler clock_a []))\<lparr>errorCount := 6\<rparr>) = 5 \<and>
   status (generateErrorReport ((fst (new_handler clock_a []))\<lparr>errorCount := 6\<rparr>) clock_c)
     = ''critical'' \<and>
   status (generateErrorReport ((fst (new_handler clock_a []))\<lparr>errorCount := 5\<rparr>) clock_c)
     = ''normal''"
proof -
  let ?H = "fst (new_handler clock_a [])"
  let ?nr1 = "[(''_original'', V (JRef 1)),
      (''_validation'', V (JRef 2)),
      (''content'', V (JStr [])),
      (''id'', V (JStr (generateFallbackId clock_a))),
      (''timestamp'', V (JStr (iso_read clock_a 0))),
      (''model'', V (JStr ''unknown-model'')),
      (''usage'', V (JRef 0)),
      (''error'', V JNull)]"
  let ?h1 = "[ObjPlain [(''total_tokens'', JNum 0)],
      ObjPlain [],
      ObjPlain [(''timestamp'', JStr (iso_read clock_b 0)), (''issues'', JRef 3)],
      ObjArray [JStr ''Missing field: content'']]"
  let ?nr2 = "[(''_original'', V (JRef 1)),
      (''_validation'', V (JRef 2)),
      (''content'', V (JStr ''hello'')),
      (''id'', V (JStr (generateFallbackId clock_a))),
      (''timestamp'', V (JStr (iso_read clock_a 0))),
      (''model'', V (JStr ''unknown-model'')),
      (''usage'', V (JRef 0)),
      (''error'', V JNull)]"
  let ?h2 = "[ObjPlain [(''total_tokens'', JNum 0)],
      ObjPlain [(''content'', JStr ''hello'')],
      ObjPlain [(''timestamp'', JStr (iso_read clock_b 0)), (''issues'', JRef 3)],
      ObjArray []]"
  have run1: "validateAndNormalize (validator ?H) store_empty_object (V (JRef 1))
      (requiredFields_of default_options) clock_b = (Returns ?nr1, ?h1)"
    by (simp add: example_defs handler_defs norm_defs extract_defs path_defs lookup_defs)
  have iss1: "issues_of ?h1 ?nr1 = Some [JStr ''Missing field: content'']"
    by (simp add: issues_of_def lookup_defs)
  have run2: "validateAndNormalize (validator (?H\<lparr>errorCount := 3\<rparr>)) store_content_only
      (V (JRef 1)) (requiredFields_of default_options) clock_b = (Returns ?nr2, ?h2)"
    by (simp add: example_defs handler_defs norm_defs extract_defs path_defs lookup_defs)
  have iss2: "issues_of ?h2 ?nr2 = Some []"
    by (simp add: issues_of_def lookup_defs)
  have zero: "errorCount ?H = 0" by (simp add: new_handler_def)
  have five: "maxErrors (?H\<lparr>errorCount := 6\<rparr>) = 5" "maxErrors (?H\<lparr>errorCount := 5\<rparr>) = 5"
    by (simp_all add: new_handler_def)
  from handleApiResponse_errorCount [where hdl = ?H and h = store_empty_object
      and r = "V (JRef 1)" and opts = default_options and e = clock_b and nr = ?nr1
      and ?h1.0 = ?h1 and xs = "[JStr ''Missing field: content'']"] run1 iss1 zero
  have c1: "errorCount (fst (snd (handleApiResponse ?H store_empty_object (V (JRef 1))
      default_options clock_b))) = 1"
    by simp
  from handleApiResponse_errorCount [where hdl = "?H\<lparr>errorCount := 3\<rparr>"
      and h = store_content_only and r = "V (JRef 1)" and opts = default_options
      and e = clock_b and nr = ?nr2 and ?h1.0 = ?h2 and xs = "[]"] run2 iss2
  have c2: "errorCount (fst (snd (handleApiResponse (?H\<lparr>errorCount := 3\<rparr>) store_content_only
      (V (JRef 1)) default_options clock_b))) = 0"
    by simp
  from handleApiResponse_errorCount [where hdl = "?H\<lparr>errorCount := 6\<rparr>" and e = clock_c]
    five(1)
  have s1: "status (generateErrorReport (?H\<lparr>errorCount := 6\<rparr>) clock_c) = ''critical''"
    by simp
  from handleApiResponse_errorCount [where hdl = "?H\<lparr>errorCount := 5\<rparr>" and e = clock_c]
    five(2)
  have s2: "status (generateErrorReport (?H\<lparr>errorCount := 5\<rparr>) clock_c) = ''normal''"
    by simp
  from run1 c1 run2 c2 five(1) s1 s2 show ?thesis by blast
qed

section \<open>Further facts about the edges of the claims\<close>

text \<open>
  A required field named \<open>_original\<close> that the response lacks replaces the reference to
  the raw input by the default of that name, which is \<open>undefined\<close>.
\<close>

lemma required_original_overwritten:
  "result_field
     (fst (validateAndNormalize example_validator store_content_only (V (JRef 1))
             [''_original''] clock_b)) ''_original'' = V JUndefined"
  by (simp add: example_defs norm_defs extract_defs path_defs lookup_defs)

text \<open>
  When normalization throws, the handler returns the fallback record or throws again,
  and the count stays as it was.
\<close>

lemma handleApiResponse_catch_keeps_count:
  assumes "validateAndNormalize (validator hdl) h r (requiredFields_of opts) e = (Throws err, h1)"
  shows "fst (snd (handleApiResponse hdl h r opts e)) = hdl"
    and "enableFallback_of opts \<Longrightarrow>
      fst (handleApiResponse hdl h r opts e) = Returns (fst (createFallbackResponse e 1 h1))"
    and "\<not> enableFallback_of opts \<Longrightarrow> fst (handleApiResponse hdl h r opts e) = Throws err"
  using assms by (simp_all add: handleApiResponse_def catch_block_def)

lemma handleApiResponse_inherited_field_name:
  "fst (handleApiResponse (fst (new_handler clock_a [])) store_content_only (V (JRef 1))
          \<lparr>opt_requiredFields = Some [''constructor''], opt_enableLogging = None,
           opt_enableFallback = None\<rparr> clock_b)
   = Returns (fst (createFallbackResponse clock_b 1
       (store_content_only @
          [ObjPlain [(''timestamp'', JStr (iso_read clock_b 0)), (''issues'', JRef 3)],
           ObjArray []])))"
  by (simp add: example_defs handler_defs validateAndNormalize_def new_validator_def
       extract_defs lookup_defs numeral_3_eq_3)

text \<open>
  A primitive in the middle of a path: for \<open>{ data: 5 }\<close> and a table that lists the path
  \<open>data.message\<close>, the presence test fails at the number and \<open>extractField\<close> returns
  \<open>null\<close>; the unguarded traversal is not entered.
\<close>

lemma extractField_primitive_mid_path:
  "\<not> hasNestedProperty [ObjPlain [(''data'', JNum 5)]] (V (JRef 0)) ''data.message'' \<and>
   extractField \<lparr>fieldMappings = [(''content'', [''content'', ''data.message''])],
                 defaultValues = []\<rparr>
     [ObjPlain [(''data'', JNum 5)]] (V (JRef 0)) ''content'' = Returns (V JNull)"
  by (simp add: extractField_def possibleKeys_def path_defs lookup_defs)

section \<open>Closed stores stay closed\<close>

text \<open>
  The constructor and every call of \<open>validateAndNormalize\<close> turn a closed store into a
  closed store, so the closedness assumed above holds for every store that the code
  builds from closed inputs.
\<close>

lemma ref_below_mono: "ref_below n v \<Longrightarrow> n \<le> m \<Longrightarrow> ref_below m v"
  by (cases v) auto

lemma obj_closed_mono: "obj_closed n ob \<Longrightarrow> n \<le> m \<Longrightarrow> obj_closed m ob"
  by (cases ob) (auto simp: list_all_iff intro: ref_below_mono)

lemma heap_closed_append:
  assumes "heap_closed h" and "list_all (obj_closed (length h + length obs)) obs"
  shows "heap_closed (h @ obs)"
  using assms
  by (auto simp: heap_closed_def list_all_iff intro: obj_closed_mono)

lemma heap_closed_push:
  assumes "heap_closed h" and "js_push h x (JStr msg) = Returns h'"
  shows "heap_closed h' \<and> length h' = length h"
proof (cases "(h, x, JStr msg)" rule: js_push.cases)
  case (3 h0 b v)
  with assms(2) obtain xs where x: "obj_at h b = ObjArray xs"
    and h': "h' = h[b := ObjArray (xs @ [JStr msg])]"
    by (auto split: jsobj.splits)
  show ?thesis
  proof (cases "b < length h")
    case True
    with x have "h ! b = ObjArray xs" by (simp add: obj_at_def)
    with assms(1) True have xs: "list_all (ref_below (length h)) xs"
      by (auto simp: heap_closed_def list_all_length dest!: spec [of _ b])
    have "obj_closed (length h) (h' ! n)" if "n < length h" for n
    proof (cases "n = b")
      case True
      with that h' xs show ?thesis by simp
    next
      case False
      with that h' assms(1) show ?thesis
        by (simp add: heap_closed_def list_all_length)
    qed
    with h' show ?thesis
      by (simp add: heap_closed_def list_all_length)
  next
    case False
    with x show ?thesis by (simp add: obj_at_def)
  qed
qed (use assms(2) in auto)

lemma heap_closed_push_issue:
  assumes "heap_closed h" and "push_issue h nr msg = Returns h'"
  shows "heap_closed h' \<and> length h' = length h"
  using assms
  by (auto simp: push_issue_def split: outcome.splits dest: heap_closed_push)

lemma required_loop_closed:
  "heap_closed h \<Longrightarrow>
   heap_closed (snd (required_loop vd h response fs nr)) \<and>
   length (snd (required_loop vd h response fs nr)) = length h"
proof (induction fs arbitrary: h nr)
  case Nil
  then show ?case by simp
next
  case (Cons f fs)
  show ?case
  proof (cases "extractField vd h response f")
    case (Returns v)
    show ?thesis
    proof (cases "v = V JNull")
      case False
      with Returns Cons show ?thesis by simp
    next
      case True
      show ?thesis
      proof (cases "push_issue h (AList.update f (default_of vd f) nr) (''Missing field: '' @ f)")
        case (Returns h')
        with Cons.prems have "heap_closed h' \<and> length h' = length h"
          by (auto dest: heap_closed_push_issue)
        with Cons.IH [of h'] Returns \<open>extractField vd h response f = Returns v\<close> True
        show ?thesis by simp
      next
        case (Throws e)
        with Cons.prems \<open>extractField vd h response f = Returns v\<close> True
        show ?thesis by simp
      next
        case Unmodelled
        with Cons.prems \<open>extractField vd h response f = Returns v\<close> True
        show ?thesis by simp
      qed
    qed
  next
    case (Throws e)
    with Cons.prems show ?thesis by simp
  next
    case Unmodelled
    with Cons.prems show ?thesis by simp
  qed
qed

lemma new_validator_closed:
  "heap_closed h \<Longrightarrow> heap_closed (snd (new_validator e h))"
  by (simp add: new_validator_def heap_closed_append)

lemma createFallbackResponse_closed:
  "heap_closed h \<Longrightarrow> heap_closed (snd (createFallbackResponse e i h))"
  by (simp add: createFallbackResponse_def heap_closed_append)

lemma validateAndNormalize_closed:
  assumes "heap_closed h"
  shows "heap_closed (snd (validateAndNormalize vd h response fs e))"
proof (cases "\<not> truthy response \<or> typeof response \<noteq> ''object''")
  case True
  with assms show ?thesis
    by (simp add: validateAndNormalize_def createFallbackResponse_closed)
next
  case False
  let ?hs = "h @ [ObjPlain [(''timestamp'', JStr (iso_read e 0)),
                            (''issues'', JRef (length h + 1))], ObjArray []]"
  have "heap_closed ?hs"
    using assms by (simp add: heap_closed_append)
  then have "heap_closed (snd (required_loop vd ?hs response fs
      [(''_original'', response), (''_validation'', V (JRef (length h)))]))"
    by (simp add: required_loop_closed)
  with False show ?thesis
    by (auto simp: validateAndNormalize_def split: prod.splits outcome.splits)
qed

end
